theory Spec2Isabelle
  imports Main
begin

section \<open>The machine-api operator: pkg/operator/operator.go\<close>

text \<open>
  A shallow embedding of the reconciliation core of the operator. The operator talks to
  collaborators that live outside the file (the cluster clients, the file system, the
  work queue, the poller); what they answer is taken from an environment record, what
  the operator asks of them is recorded, in order, in a trace of events.
\<close>

subsection \<open>Errors, outcomes, events\<close>

text \<open>A Go \<open>error\<close> is represented by its message; \<open>nil\<close> is \<open>None\<close> of \<open>error option\<close>.\<close>

type_synonym error = string

text \<open>
  A call either returns to its caller or ends the process: \<open>glog.Fatalf\<close> logs and then
  calls \<open>os.Exit(255)\<close>, so nothing after it runs, deferred calls included.
\<close>

datatype 'a outcome = Return 'a | Exit

datatype level = Info | V nat | Error | Fatal

text \<open>The calls \<open>sync\<close> and the bootstrap poll make to their collaborators.\<close>

datatype stage =
    CustomResourceDefinitions
  | ResolveConfig
  | ImageDetails
  | ClusterAPIServer
  | ClusterAPIController
  | SyncAll
  | CreateCluster
  | CreateMachineSets

datatype informer =
    MachineSetInformer
  | ConfigMapInformer
  | ServiceAccountInformer
  | CRDInformer
  | DeployInformer
  | ClusterRoleInformer
  | ClusterRoleBindingInformer

datatype task = BootstrapLoop | Worker

text \<open>
  One event per observable action. \<open>Log\<close> carries the level and the format string of the
  source (the formatted arguments are not represented); \<open>Report\<close> is
  \<open>utilruntime.HandleError\<close>; \<open>Go\<close> is a \<open>go\<close> statement; \<open>AwaitStop\<close> is the receive
  on the stop channel.
\<close>

datatype event =
    QAdd string
  | QGet
  | QDone string
  | QNumRequeues string
  | QAddRateLimited string nat
  | QForget string
  | QShutDown
  | Stage stage
  | Log level string
  | Report error
  | WaitForCacheSync "informer list"
  | Go task
  | AwaitStop

subsection \<open>The world\<close>

text \<open>
  \<open>ext\<close> is everything outside the process that the collaborators read and change (the
  cluster, the files); its type is left open. \<open>failures\<close> is the per-key retry counter
  of the queue's rate limiter. \<open>trace\<close> is what the operator has done so far.
\<close>

record 'x world =
  ext :: 'x
  failures :: "string \<Rightarrow> nat"
  trace :: "event list"

definition emit :: "event \<Rightarrow> 'x world \<Rightarrow> 'x world" where
  "emit e w = w\<lparr>trace := trace w @ [e]\<rparr>"

text \<open>The events a computation from \<open>w\<close> to \<open>w'\<close> has added.\<close>

definition added :: "'x world \<Rightarrow> 'x world \<Rightarrow> event list" where
  "added w w' = drop (length (trace w)) (trace w')"

subsection \<open>The rate-limited work queue\<close>

text \<open>
  Modelled from the spec: the work queue (\<open>workqueue.RateLimitingInterface\<close> with
  \<open>workqueue.DefaultControllerRateLimiter()\<close>) is not in the source file. Section 4.1:
  the delay after the n-th consecutive failure is \<open>base * 2^(n-1)\<close> with \<open>base\<close> = 5ms;
  \<open>AddRateLimited\<close> re-enqueues after the computed delay, \<open>Forget\<close> resets the counter,
  \<open>NumRequeues\<close> reports it. Delays are in nanoseconds, as in \<open>time.Duration\<close>.
\<close>

definition baseDelay :: nat where
  "baseDelay = 5000000"

definition backoff :: "nat \<Rightarrow> nat" where
  "backoff n = baseDelay * 2 ^ (n - 1)"

definition queueAdd :: "string \<Rightarrow> 'x world \<Rightarrow> 'x world" where
  "queueAdd key w = emit (QAdd key) w"

definition queueDone :: "string \<Rightarrow> 'x world \<Rightarrow> 'x world" where
  "queueDone key w = emit (QDone key) w"

definition queueShutDown :: "'x world \<Rightarrow> 'x world" where
  "queueShutDown w = emit QShutDown w"

definition queueNumRequeues :: "string \<Rightarrow> 'x world \<Rightarrow> nat \<times> 'x world" where
  "queueNumRequeues key w = (failures w key, emit (QNumRequeues key) w)"

definition queueAddRateLimited :: "string \<Rightarrow> 'x world \<Rightarrow> 'x world" where
  "queueAddRateLimited key w =
     (let n = Suc (failures w key)
      in emit (QAddRateLimited key (backoff n)) (w\<lparr>failures := (failures w)(key := n)\<rparr>))"

definition queueForget :: "string \<Rightarrow> 'x world \<Rightarrow> 'x world" where
  "queueForget key w = emit (QForget key) (w\<lparr>failures := (failures w)(key := 0)\<rparr>)"

subsection \<open>handleErr\<close>

definition maxRetries :: nat where
  "maxRetries = 15"

definition handleErr :: "error option \<Rightarrow> string \<Rightarrow> 'x world \<Rightarrow> 'x world" where
  "handleErr err key w =
     (case err of
        None \<Rightarrow> queueForget key w
      | Some e \<Rightarrow>
          (case queueNumRequeues key w of
             (n, w1) \<Rightarrow>
               if n < maxRetries
               then queueAddRateLimited key (emit (Log (V 2) ''Error syncing operator %v: %v'') w1)
               else queueForget key
                      (emit (Log (V 2) ''Dropping operator %q out of the queue: %v'')
                         (emit (Report e) w1))))"

subsection \<open>The operator and its collaborators\<close>

text \<open>
  The data fields of the \<open>Operator\<close> struct. The three \<open>...Synced\<close> fields are set in
  \<open>New\<close> to the \<open>HasSynced\<close> function of an informer and are represented by that
  informer; \<open>daemonsetListerSynced\<close> is never assigned nor read. The client fields are
  the environment below; \<open>syncHandler\<close> is an argument of \<open>processNextWorkItem\<close>.
\<close>

record Operator =
  namespace :: string
  name :: string
  imagesFile :: string
  config :: string
  crdListerSynced :: informer
  machineSetSynced :: informer
  deployListerSynced :: informer

text \<open>\<open>v1.ConfigMap\<close>: only its \<open>Data\<close> field is read.\<close>

record ConfigMap =
  Data :: "string \<rightharpoonup> string"

text \<open>
  Modelled from the spec: \<open>render.OperatorConfig\<close> and \<open>render.Images\<close> are declared in
  pkg/render, not in the source file. Section 3: a target namespace, a provider identifier
  and an image mapping from component name to image reference. The \<open>Images\<close> field is a
  pointer in the source, \<open>nil\<close> until \<open>updateImageDetails\<close> sets it.
\<close>

type_synonym Images = "(string \<times> string) list"

record OperatorConfig =
  TargetNamespace :: string
  Provider :: string
  Images :: "Images option"

text \<open>
  What the collaborators answer. Reads depend on the external state; the convergence
  and creation calls (defined in another file of the package) may also change it.
  \<open>yamlUnmarshal\<close> and \<open>jsonUnmarshal\<close> parse into a zero-valued struct, so their result
  is the parsed value.
\<close>

record 'x env =
  configMapsGet :: "string \<Rightarrow> string \<Rightarrow> 'x \<Rightarrow> error + ConfigMap"
  yamlUnmarshal :: "string \<Rightarrow> error + OperatorConfig"
  readFile :: "string \<Rightarrow> 'x \<Rightarrow> error + string"
  jsonUnmarshal :: "string \<Rightarrow> error + Images"
  syncCustomResourceDefinitions :: "'x \<Rightarrow> error option \<times> 'x"
  syncClusterAPIServer :: "OperatorConfig \<Rightarrow> 'x \<Rightarrow> error option \<times> 'x"
  syncClusterAPIController :: "OperatorConfig \<Rightarrow> 'x \<Rightarrow> error option \<times> 'x"
  syncAll :: "OperatorConfig \<Rightarrow> 'x \<Rightarrow> error option \<times> 'x"
  syncCluster :: "OperatorConfig \<Rightarrow> 'x \<Rightarrow> error option \<times> 'x"
  syncMachineSets :: "OperatorConfig \<Rightarrow> 'x \<Rightarrow> error option \<times> 'x"

text \<open>A collaborator call: recorded in the trace, then applied to the external state.\<close>

definition runStage ::
  "stage \<Rightarrow> ('x \<Rightarrow> error option \<times> 'x) \<Rightarrow> 'x world \<Rightarrow> error option \<times> 'x world" where
  "runStage s f w =
     (case f (ext w) of (r, x') \<Rightarrow> (r, (emit (Stage s) w)\<lparr>ext := x'\<rparr>))"

subsection \<open>Configuration resolution\<close>

definition mcFromClusterConfig ::
  "Operator \<Rightarrow> 'x env \<Rightarrow> ConfigMap \<Rightarrow> error + OperatorConfig" where
  "mcFromClusterConfig optr env cm =
     (let mcKey = ''mao-config''
      in case Data cm mcKey of
           None \<Rightarrow> Inl (mcKey @ '' doesn't exist'')
         | Some mcData \<Rightarrow>
             (case yamlUnmarshal env mcData of
                Inl err \<Rightarrow> Inl (''failed unmarshalling config file: '' @ err)
              | Inr operatorConfig \<Rightarrow>
                  if TargetNamespace operatorConfig = []
                  then Inr (operatorConfig\<lparr>TargetNamespace := namespace optr\<rparr>)
                  else Inr operatorConfig))"

definition getOperatorConfig :: "Operator \<Rightarrow> 'x env \<Rightarrow> 'x \<Rightarrow> error + OperatorConfig" where
  "getOperatorConfig optr env x =
     (let clusterConfigNamespace = ''kube-system'';
          clusterConfigName = ''cluster-config-v1''
      in case configMapsGet env clusterConfigNamespace clusterConfigName x of
           Inl err \<Rightarrow> Inl (''could not find cluster-config-v1 namespace: '' @ err)
         | Inr clusterConfig \<Rightarrow> mcFromClusterConfig optr env clusterConfig)"

text \<open>The loop of \<open>updateImageDetails\<close> over its list of files.\<close>

fun readFiles ::
  "'x env \<Rightarrow> 'x \<Rightarrow> string list \<Rightarrow> (string \<rightharpoonup> string) \<Rightarrow> error + (string \<rightharpoonup> string)" where
  "readFiles env x [] filesData = Inr filesData"
| "readFiles env x (file # files) filesData =
     (case readFile env file x of
        Inl err \<Rightarrow> Inl err
      | Inr data \<Rightarrow> readFiles env x files (filesData(file \<mapsto> data)))"

definition updateImageDetails ::
  "Operator \<Rightarrow> 'x env \<Rightarrow> OperatorConfig \<Rightarrow> 'x \<Rightarrow> error + OperatorConfig" where
  "updateImageDetails optr env cfg x =
     (case readFiles env x [imagesFile optr] Map.empty of
        Inl err \<Rightarrow> Inl err
      | Inr filesData \<Rightarrow>
          (case jsonUnmarshal env (case filesData (imagesFile optr) of None \<Rightarrow> [] | Some d \<Rightarrow> d) of
             Inl err \<Rightarrow> Inl err
           | Inr imgs \<Rightarrow> Inr (cfg\<lparr>Images := Some imgs\<rparr>)))"

subsection \<open>sync\<close>

text \<open>
  The deferred log of \<open>sync\<close> runs when \<open>sync\<close> returns; it does not run when
  \<open>glog.Fatalf\<close> ends the process.
\<close>

definition finished :: "'x world \<Rightarrow> 'x world" where
  "finished w = emit (Log (V 4) ''Finished syncing operator %q (%v)'') w"

definition sync ::
  "Operator \<Rightarrow> 'x env \<Rightarrow> string \<Rightarrow> 'x world \<Rightarrow> error option outcome \<times> 'x world" where
  "sync optr env key w0 =
     (let w1 = emit (Log (V 4) ''Started syncing operator %q (%v)'') w0
      in case runStage CustomResourceDefinitions (syncCustomResourceDefinitions env) w1 of
           (Some err, w2) \<Rightarrow> (Return (Some err), finished w2)
         | (None, w2) \<Rightarrow>
      let w3 = emit (Stage ResolveConfig)
                 (emit (Log Info ''Getting operator config using kubeclient'') w2)
      in case getOperatorConfig optr env (ext w3) of
           Inl err \<Rightarrow> (Exit, emit (Log Fatal ''Error decoding operator config: %v'') w3)
         | Inr operatorConfig0 \<Rightarrow>
      let w4 = emit (Stage ImageDetails) w3
      in case updateImageDetails optr env operatorConfig0 (ext w4) of
           Inl err \<Rightarrow> (Exit, emit (Log Fatal ''Error getting image details: %v'') w4)
         | Inr operatorConfig \<Rightarrow>
      (case runStage ClusterAPIServer (syncClusterAPIServer env operatorConfig) w4 of
           (Some err, w5) \<Rightarrow>
             (Exit, emit (Log Fatal ''Failed sync-up cluster apiserver: %v'') w5)
         | (None, w5) \<Rightarrow>
      (case runStage ClusterAPIController (syncClusterAPIController env operatorConfig)
              (emit (Log Info ''Synched up cluster api server'') w5) of
           (Some err, w6) \<Rightarrow>
             (Exit, emit (Log Fatal ''Failed sync-up cluster api controller: %v'') w6)
         | (None, w6) \<Rightarrow>
      (case runStage SyncAll (syncAll env operatorConfig)
              (emit (Log Info ''Synched up cluster api controller'') w6) of
           (r, w7) \<Rightarrow> (Return r, finished w7)))))"

subsection \<open>The worker\<close>

text \<open>
  \<open>got\<close> is what the blocking \<open>queue.Get()\<close> returned: the item and the shutting-down
  flag. The items of this queue are the strings \<open>eventHandler\<close> adds, so the type
  assertion \<open>key.(string)\<close> succeeds. \<open>Done\<close> is deferred: it runs when the function
  returns after the dequeue.
\<close>

definition processNextWorkItem ::
  "(string \<Rightarrow> 'x world \<Rightarrow> error option outcome \<times> 'x world) \<Rightarrow> string \<times> bool \<Rightarrow>
   'x world \<Rightarrow> bool outcome \<times> 'x world" where
  "processNextWorkItem syncHandler got w =
     (case got of
        (key, quit) \<Rightarrow>
          let w1 = emit QGet w
          in if quit then (Return False, w1)
             else (case syncHandler key w1 of
                     (Exit, w2) \<Rightarrow> (Exit, w2)
                   | (Return err, w2) \<Rightarrow> (Return True, queueDone key (handleErr err key w2))))"

subsection \<open>Event handlers\<close>

record ('o, 'x) ResourceEventHandlerFuncs =
  AddFunc :: "'o \<Rightarrow> 'x world \<Rightarrow> 'x world"
  UpdateFunc :: "'o \<Rightarrow> 'o \<Rightarrow> 'x world \<Rightarrow> 'x world"
  DeleteFunc :: "'o \<Rightarrow> 'x world \<Rightarrow> 'x world"

definition workQueueKey :: "Operator \<Rightarrow> string" where
  "workQueueKey optr = namespace optr @ ''/'' @ name optr"

definition eventHandler :: "Operator \<Rightarrow> ('o, 'x) ResourceEventHandlerFuncs" where
  "eventHandler optr =
     \<lparr>AddFunc = (\<lambda>obj. queueAdd (workQueueKey optr)),
      UpdateFunc = (\<lambda>old new. queueAdd (workQueueKey optr)),
      DeleteFunc = (\<lambda>obj. queueAdd (workQueueKey optr))\<rparr>"

text \<open>A change notification and its dispatch to the registered callbacks.\<close>

datatype 'o notification = OnAdd 'o | OnUpdate 'o 'o | OnDelete 'o

fun deliver ::
  "('o, 'x) ResourceEventHandlerFuncs \<Rightarrow> 'o notification \<Rightarrow> 'x world \<Rightarrow> 'x world" where
  "deliver h (OnAdd obj) w = AddFunc h obj w"
| "deliver h (OnUpdate old new) w = UpdateFunc h old new w"
| "deliver h (OnDelete obj) w = DeleteFunc h obj w"

text \<open>
  \<open>New\<close>: the operator, and the handler it registers on each of the seven informers
  (\<open>AddEventHandler\<close>), in the order of the source.
\<close>

definition New ::
  "string \<Rightarrow> string \<Rightarrow> string \<Rightarrow> string \<Rightarrow>
   Operator \<times> (informer \<times> ('o, 'x) ResourceEventHandlerFuncs) list" where
  "New ns nm images cfg =
     (let optr = \<lparr>namespace = ns, name = nm, imagesFile = images, config = cfg,
                  crdListerSynced = CRDInformer, machineSetSynced = MachineSetInformer,
                  deployListerSynced = DeployInformer\<rparr>
      in (optr,
          map (\<lambda>i. (i, eventHandler optr))
            [MachineSetInformer, ConfigMapInformer, ServiceAccountInformer, CRDInformer,
             DeployInformer, ClusterRoleInformer, ClusterRoleBindingInformer]))"

subsection \<open>The bootstrap loop\<close>

text \<open>The condition function that \<open>Run\<close> hands to \<open>wait.Poll\<close>: one poll tick.\<close>

definition rolloutCondition ::
  "Operator \<Rightarrow> 'x env \<Rightarrow> 'x world \<Rightarrow> (bool \<times> error option) \<times> 'x world" where
  "rolloutCondition optr env w0 =
     (let w1 = emit (Stage ResolveConfig) w0
      in case getOperatorConfig optr env (ext w1) of
           Inl err \<Rightarrow> ((False, Some (''error decoding operator config: '' @ err)), w1)
         | Inr operatorConfig0 \<Rightarrow>
      let w2 = emit (Stage ImageDetails) w1
      in case updateImageDetails optr env operatorConfig0 (ext w2) of
           Inl err \<Rightarrow> ((False, Some (''error getting image details: '' @ err)), w2)
         | Inr operatorConfig \<Rightarrow>
      (case runStage CreateCluster (syncCluster env operatorConfig)
              (emit (Log Info ''Trying to deploy Cluster object'')
                 (emit (Log Info ''images %+v'') w2)) of
           (Some err, w3) \<Rightarrow>
             ((False, None), emit (Log Info ''Cannot create cluster, retrying: %v'') w3)
         | (None, w3) \<Rightarrow>
      (case runStage CreateMachineSets (syncMachineSets env operatorConfig)
              (emit (Log Info ''Trying to deploy MachineSet object'')
                 (emit (Log Info ''Created Cluster object'') w3)) of
           (Some err, w4) \<Rightarrow>
             ((False, None), emit (Log Info ''Cannot create MachineSet, retrying: %v'') w4)
         | (None, w4) \<Rightarrow>
             ((True, None), emit (Log Info ''Created MachineSet object Successfully'') w4))))"

text \<open>
  Modelled from the spec: \<open>wait.Poll(interval, timeout, condition)\<close> is library code
  outside the source file. Section 4.5: the condition runs on each poll tick; the loop
  ends successfully when a tick reports done, a hard error of a tick aborts it with that
  error, and the timeout elapsing first is a failure (the library's \<open>ErrWaitTimeout\<close>).
  The first argument is the number of ticks that fit before the timeout; it stands for
  \<open>machineRolloutPollInterval\<close> and \<open>machineRolloutTimeout\<close>, which are declared
  outside the source file.
\<close>

definition ErrWaitTimeout :: error where
  "ErrWaitTimeout = ''timed out waiting for the condition''"

fun Poll ::
  "nat \<Rightarrow> ('x world \<Rightarrow> (bool \<times> error option) \<times> 'x world) \<Rightarrow> 'x world \<Rightarrow>
   error option \<times> 'x world" where
  "Poll 0 condition w = (Some ErrWaitTimeout, w)"
| "Poll (Suc n) condition w =
     (case condition w of
        ((ok, Some err), w') \<Rightarrow> (Some err, w')
      | ((True, None), w') \<Rightarrow> (None, w')
      | ((False, None), w') \<Rightarrow> Poll n condition w')"

text \<open>The goroutine \<open>Run\<close> starts for the bootstrap.\<close>

definition bootstrap :: "Operator \<Rightarrow> 'x env \<Rightarrow> nat \<Rightarrow> 'x world \<Rightarrow> unit outcome \<times> 'x world" where
  "bootstrap optr env ticks w =
     (case Poll ticks (rolloutCondition optr env) w of
        (Some err, w') \<Rightarrow>
          (Exit, emit (Log Fatal ''Error out while trying to deploy machines: %v'') w')
      | (None, w') \<Rightarrow> (Return (), w'))"

subsection \<open>Run\<close>

text \<open>
  Modelled from the spec: \<open>cache.WaitForCacheSync(stopCh, fns...)\<close> is library code
  outside the source file. Section 4.2: the wait blocks until the caches report initial
  sync complete, and fails when the stop signal fires first. The caches it waits for are
  the \<open>HasSynced\<close> functions it is given; \<open>syncedBeforeStop i\<close> says whether the cache
  of informer \<open>i\<close> completes its initial sync before the stop signal.
\<close>

definition cacheWaitForCacheSync ::
  "(informer \<Rightarrow> bool) \<Rightarrow> informer list \<Rightarrow> 'x world \<Rightarrow> bool \<times> 'x world" where
  "cacheWaitForCacheSync syncedBeforeStop fns w =
     (list_all syncedBeforeStop fns, emit (WaitForCacheSync fns) w)"

text \<open>
  What \<open>Run\<close> itself does, in order. The goroutines it starts run concurrently and are
  the functions \<open>bootstrap\<close> and \<open>processNextWorkItem\<close> above; here they are the \<open>Go\<close>
  events. The deferred calls run at return in reverse order of their \<open>defer\<close>
  statements; \<open>HandleCrash\<close> does nothing when nothing panicked.
\<close>

definition Run :: "Operator \<Rightarrow> (informer \<Rightarrow> bool) \<Rightarrow> int \<Rightarrow> 'x world \<Rightarrow> 'x world" where
  "Run optr syncedBeforeStop workers w0 =
     (let deferred = (\<lambda>w. queueShutDown (emit (Log Info ''Shutting down MachineAPIOperator'') w));
          w1 = emit (Log Info ''Starting MachineAPIOperator'') w0
      in case cacheWaitForCacheSync syncedBeforeStop [deployListerSynced optr] w1 of
           (ok, w2) \<Rightarrow>
             if \<not> ok then deferred (emit (Log Error ''failed to sync caches'') w2)
             else let w3 = emit (Go BootstrapLoop) (emit (Log Info ''Synched up caches'') w2);
                      w4 = (emit (Go Worker) ^^ nat workers) w3
                  in deferred (emit AwaitStop w4))"

subsection \<open>Consecutive failures\<close>

text \<open>
  \<open>failTimes K e key\<close>: the error policy handles \<open>K\<close> failed syncs of \<open>key\<close> in a row.
  \<open>delays\<close> lists the delays of the \<open>AddRateLimited\<close> calls of a trace, in order;
  \<open>retryEvents key n\<close> is what the policy does on the n-th failure in a row.
\<close>

fun delays :: "event list \<Rightarrow> nat list" where
  "delays [] = []"
| "delays (QAddRateLimited k d # es) = d # delays es"
| "delays (e # es) = delays es"

definition failTimes :: "nat \<Rightarrow> error \<Rightarrow> string \<Rightarrow> 'x world \<Rightarrow> 'x world" where
  "failTimes K e key w = (handleErr (Some e) key ^^ K) w"

definition retryEvents :: "string \<Rightarrow> nat \<Rightarrow> event list" where
  "retryEvents key n =
     [QNumRequeues key, Log (V 2) ''Error syncing operator %v: %v'',
      QAddRateLimited key (backoff n)]"

subsection \<open>Concrete inputs\<close>

text \<open>A fresh world over a trivial external state, and the key of the spec's example.\<close>

definition freshWorld :: "'x \<Rightarrow> 'x world" where
  "freshWorld x = \<lparr>ext = x, failures = (\<lambda>k. 0), trace = []\<rparr>"

definition exampleKey :: string where
  "exampleKey = ''openshift-machine-api/machine-api-operator''"

text \<open>A world in which the example key has already been requeued fifteen times.\<close>

definition wornWorld :: "unit world" where
  "wornWorld = \<lparr>ext = (), failures = (\<lambda>k. 15), trace = []\<rparr>"

text \<open>The operator of the spec's example, as \<open>New\<close> builds it.\<close>

definition exampleOperator :: Operator where
  "exampleOperator =
     fst (New ''openshift-machine-api'' ''machine-api-operator'' ''/etc/images.json'' []
            :: Operator \<times> (informer \<times> (unit, unit) ResourceEventHandlerFuncs) list)"

text \<open>
  Scripted collaborators over an external state that counts the attempts at creating the
  cluster object and the machine-set object. The arguments script the answers: of the
  config-map read, of the registration of the custom resource definitions, of \<open>syncAll\<close>,
  and of the n-th attempt (from 0) at each of the two creations. The YAML stub parses one
  text; the image file reads and parses.
\<close>

definition scriptedEnv ::
  "(error + ConfigMap) \<Rightarrow> error option \<Rightarrow> error option \<Rightarrow>
   (nat \<Rightarrow> error option) \<Rightarrow> (nat \<Rightarrow> error option) \<Rightarrow> (nat \<times> nat) env" where
  "scriptedEnv cmAnswer crdAnswer allAnswer clusterAnswer machineSetAnswer =
     \<lparr>configMapsGet =
        (\<lambda>ns nm x. if ns = ''kube-system'' \<and> nm = ''cluster-config-v1''
                    then cmAnswer else Inl ''not found''),
      yamlUnmarshal =
        (\<lambda>text. if text = ''provider: aws''
                 then Inr \<lparr>TargetNamespace = [], Provider = ''aws'', Images = None\<rparr>
                 else Inl ''cannot unmarshal''),
      readFile = (\<lambda>file x. Inr ''{}''),
      jsonUnmarshal = (\<lambda>text. Inr []),
      syncCustomResourceDefinitions = (\<lambda>x. (crdAnswer, x)),
      syncClusterAPIServer = (\<lambda>cfg x. (None, x)),
      syncClusterAPIController = (\<lambda>cfg x. (None, x)),
      syncAll = (\<lambda>cfg x. (allAnswer, x)),
      syncCluster = (\<lambda>cfg x. (clusterAnswer (fst x), (Suc (fst x), snd x))),
      syncMachineSets = (\<lambda>cfg x. (machineSetAnswer (snd x), (fst x, Suc (snd x))))\<rparr>"

definition goodConfigMap :: ConfigMap where
  "goodConfigMap = \<lparr>Data = [''mao-config'' \<mapsto> ''provider: aws'']\<rparr>"

definition emptyConfigMap :: ConfigMap where
  "emptyConfigMap = \<lparr>Data = Map.empty\<rparr>"

text \<open>
  Environments for the examples: everything succeeds; the config map lacks the
  \<open>mao-config\<close> field; the first stage of \<open>sync\<close> fails; the last stage fails; the
  first attempt at the machine sets fails; the cluster creation fails \<open>M\<close> times; the
  cluster creation never succeeds.
\<close>

definition goodEnv :: "(nat \<times> nat) env" where
  "goodEnv = scriptedEnv (Inr goodConfigMap) None None (\<lambda>n. None) (\<lambda>n. None)"

definition missingFieldEnv :: "(nat \<times> nat) env" where
  "missingFieldEnv = scriptedEnv (Inr emptyConfigMap) None None (\<lambda>n. None) (\<lambda>n. None)"

definition crdFailEnv :: "(nat \<times> nat) env" where
  "crdFailEnv = scriptedEnv (Inr goodConfigMap) (Some ''crd failed'') None (\<lambda>n. None) (\<lambda>n. None)"

definition allFailEnv :: "(nat \<times> nat) env" where
  "allFailEnv = scriptedEnv (Inr goodConfigMap) None (Some ''syncAll failed'') (\<lambda>n. None) (\<lambda>n. None)"

definition machineSetLateEnv :: "(nat \<times> nat) env" where
  "machineSetLateEnv =
     scriptedEnv (Inr goodConfigMap) None None (\<lambda>n. None)
       (\<lambda>n. if n = 0 then Some ''no machine set yet'' else None)"

definition clusterLateEnv :: "nat \<Rightarrow> (nat \<times> nat) env" where
  "clusterLateEnv M =
     scriptedEnv (Inr goodConfigMap) None None
       (\<lambda>n. if n < M then Some ''no cluster yet'' else None) (\<lambda>n. None)"

definition clusterNeverEnv :: "(nat \<times> nat) env" where
  "clusterNeverEnv =
     scriptedEnv (Inr goodConfigMap) None None (\<lambda>n. Some ''no cluster'') (\<lambda>n. None)"

text \<open>The configuration the example environments resolve to.\<close>

definition resolvedConfig :: OperatorConfig where
  "resolvedConfig =
     \<lparr>TargetNamespace = ''openshift-machine-api'', Provider = ''aws'', Images = None\<rparr>"

definition unreachableEnv :: "(nat \<times> nat) env" where
  "unreachableEnv =
     scriptedEnv (Inl ''connection refused'') None None (\<lambda>n. None) (\<lambda>n. None)"

subsection \<open>Reading traces\<close>

text \<open>The collaborator calls of a trace, in order, and the test for a queue call.\<close>

fun stagesOf :: "event list \<Rightarrow> stage list" where
  "stagesOf [] = []"
| "stagesOf (Stage s # es) = s # stagesOf es"
| "stagesOf (e # es) = stagesOf es"

fun isQueueCall :: "event \<Rightarrow> bool" where
  "isQueueCall (QAdd k) = True"
| "isQueueCall QGet = True"
| "isQueueCall (QDone k) = True"
| "isQueueCall (QNumRequeues k) = True"
| "isQueueCall (QAddRateLimited k d) = True"
| "isQueueCall (QForget k) = True"
| "isQueueCall QShutDown = True"
| "isQueueCall e = False"

subsection \<open>Reading the bootstrap loop\<close>

text \<open>
  \<open>allPending n condition w\<close>: each of the next \<open>n\<close> ticks from \<open>w\<close> answers
  "not yet done" without an error. \<open>createdMachineSet\<close> is the log that follows a
  successful creation of the machine sets.
\<close>

fun allPending ::
  "nat \<Rightarrow> ('x world \<Rightarrow> (bool \<times> error option) \<times> 'x world) \<Rightarrow> 'x world \<Rightarrow> bool" where
  "allPending 0 condition w = True"
| "allPending (Suc n) condition w =
     (fst (condition w) = (False, None) \<and> allPending n condition (snd (condition w)))"

definition createdMachineSet :: event where
  "createdMachineSet = Log Info ''Created MachineSet object Successfully''"

text \<open>Cache scenarios: only the deployment cache completes its initial sync; none does.\<close>

definition onlyDeploymentsSynced :: "informer \<Rightarrow> bool" where
  "onlyDeploymentsSynced i = (i = DeployInformer)"

definition nothingSynced :: "informer \<Rightarrow> bool" where
  "nothingSynced i = False"

section \<open>Properties\<close>

subsection \<open>Traces and the queue\<close>

lemma trace_emit [simp]: "trace (emit e w) = trace w @ [e]"
  by (simp add: emit_def)

lemma ext_emit [simp]: "ext (emit e w) = ext w"
  by (simp add: emit_def)

lemma failures_emit [simp]: "failures (emit e w) = failures w"
  by (simp add: emit_def)

lemma added_appended: "trace w' = trace w @ es \<Longrightarrow> added w w' = es"
  by (simp add: added_def)

lemma trace_queueForget [simp]: "trace (queueForget key w) = trace w @ [QForget key]"
  by (simp add: queueForget_def)

lemma failures_queueForget [simp]: "failures (queueForget key w) = (failures w)(key := 0)"
  by (simp add: queueForget_def)

lemma ext_queueForget [simp]: "ext (queueForget key w) = ext w"
  by (simp add: queueForget_def)

lemma trace_queueAddRateLimited [simp]:
  "trace (queueAddRateLimited key w) =
     trace w @ [QAddRateLimited key (backoff (Suc (failures w key)))]"
  by (simp add: queueAddRateLimited_def Let_def)

lemma failures_queueAddRateLimited [simp]:
  "failures (queueAddRateLimited key w) = (failures w)(key := Suc (failures w key))"
  by (simp add: queueAddRateLimited_def Let_def)

lemma ext_queueAddRateLimited [simp]: "ext (queueAddRateLimited key w) = ext w"
  by (simp add: queueAddRateLimited_def Let_def)

lemma trace_queueDone [simp]: "trace (queueDone key w) = trace w @ [QDone key]"
  by (simp add: queueDone_def)

lemma trace_queueAdd [simp]: "trace (queueAdd key w) = trace w @ [QAdd key]"
  by (simp add: queueAdd_def)

subsection \<open>The error policy\<close>

lemma trace_handleErr_nil: "trace (handleErr None key w) = trace w @ [QForget key]"
  by (simp add: handleErr_def)

lemma trace_handleErr_retry:
  "failures w key < maxRetries \<Longrightarrow>
   trace (handleErr (Some e) key w) = trace w @ retryEvents key (Suc (failures w key))"
  by (simp add: handleErr_def queueNumRequeues_def retryEvents_def)

lemma trace_handleErr_drop:
  "\<not> failures w key < maxRetries \<Longrightarrow>
   trace (handleErr (Some e) key w) =
     trace w @ [QNumRequeues key, Report e,
                Log (V 2) ''Dropping operator %q out of the queue: %v'', QForget key]"
  by (simp add: handleErr_def queueNumRequeues_def)

lemma failures_handleErr:
  "failures (handleErr err key w) =
     (failures w)(key :=
        (case err of
           None \<Rightarrow> 0
         | Some e \<Rightarrow> if failures w key < maxRetries then Suc (failures w key) else 0))"
  by (simp add: handleErr_def queueNumRequeues_def split: option.splits)

lemma ext_handleErr [simp]: "ext (handleErr err key w) = ext w"
  by (simp add: handleErr_def queueNumRequeues_def split: option.splits)

text \<open>
  C3. \<open>handleErr\<close> is a three-way classification. With a nil error it calls
  \<open>Forget(key)\<close> and nothing else. With an error and fewer than 15 requeues of the key it
  logs at verbosity 2 and calls \<open>AddRateLimited(key)\<close>, without reporting. With an error
  and 15 or more requeues it reports the error to the error aggregator exactly once and
  calls \<open>Forget(key)\<close>, without any \<open>AddRateLimited\<close>.
\<close>

theorem handleErr_three_way:
  "added w (handleErr None key w) = [QForget key] \<and>
   (failures w key < 15 \<longrightarrow>
      added w (handleErr (Some e) key w) =
        [QNumRequeues key, Log (V 2) ''Error syncing operator %v: %v'',
         QAddRateLimited key (backoff (Suc (failures w key)))] \<and>
      Report e \<notin> set (added w (handleErr (Some e) key w))) \<and>
   (15 \<le> failures w key \<longrightarrow>
      added w (handleErr (Some e) key w) =
        [QNumRequeues key, Report e,
         Log (V 2) ''Dropping operator %q out of the queue: %v'', QForget key] \<and>
      count_list (added w (handleErr (Some e) key w)) (Report e) = 1 \<and>
      delays (added w (handleErr (Some e) key w)) = [])"
proof (intro conjI impI)
  show "added w (handleErr None key w) = [QForget key]"
    by (simp add: added_appended trace_handleErr_nil)
next
  assume lt: "failures w key < 15"
  then show retry: "added w (handleErr (Some e) key w) =
        [QNumRequeues key, Log (V 2) ''Error syncing operator %v: %v'',
         QAddRateLimited key (backoff (Suc (failures w key)))]"
    by (simp add: added_appended trace_handleErr_retry maxRetries_def retryEvents_def)
  show "Report e \<notin> set (added w (handleErr (Some e) key w))"
    unfolding retry by simp
next
  assume ge: "15 \<le> failures w key"
  then show drop: "added w (handleErr (Some e) key w) =
        [QNumRequeues key, Report e,
         Log (V 2) ''Dropping operator %q out of the queue: %v'', QForget key]"
    by (simp add: added_appended trace_handleErr_drop maxRetries_def)
  show "count_list (added w (handleErr (Some e) key w)) (Report e) = 1"
    unfolding drop by simp
  show "delays (added w (handleErr (Some e) key w)) = []"
    unfolding drop by simp
qed

theorem handleErr_three_way_witness:
  "failures (freshWorld ()) exampleKey < 15 \<and>
   added (freshWorld ()) (handleErr (Some ''boom'') exampleKey (freshWorld ())) =
     [QNumRequeues exampleKey, Log (V 2) ''Error syncing operator %v: %v'',
      QAddRateLimited exampleKey 5000000] \<and>
   15 \<le> failures wornWorld exampleKey \<and>
   added wornWorld (handleErr (Some ''boom'') exampleKey wornWorld) =
     [QNumRequeues exampleKey, Report ''boom'',
      Log (V 2) ''Dropping operator %q out of the queue: %v'', QForget exampleKey]"
  using handleErr_three_way [of "freshWorld ()" exampleKey "''boom''"]
    handleErr_three_way [of wornWorld exampleKey "''boom''"]
  by (simp add: freshWorld_def wornWorld_def backoff_def baseDelay_def)

subsection \<open>The backoff\<close>

lemma delays_append [simp]: "delays (xs @ ys) = delays xs @ delays ys"
  by (induction xs rule: delays.induct) simp_all

lemma failTimes_Suc: "failTimes (Suc K) e key w = handleErr (Some e) key (failTimes K e key w)"
  by (simp add: failTimes_def)

lemma failTimes_state:
  "failures w key = 0 \<Longrightarrow> K \<le> maxRetries \<Longrightarrow>
   failures (failTimes K e key w) key = K \<and>
   trace (failTimes K e key w) = trace w @ concat (map (retryEvents key) [1..<Suc K])"
proof (induction K)
  case 0
  then show ?case by (simp add: failTimes_def)
next
  case (Suc K)
  then have ih: "failures (failTimes K e key w) key = K"
    "trace (failTimes K e key w) = trace w @ concat (map (retryEvents key) [1..<Suc K])"
    by simp_all
  from Suc.prems have lt: "failures (failTimes K e key w) key < maxRetries"
    using ih(1) by simp
  have step: "trace (failTimes (Suc K) e key w) =
      trace (failTimes K e key w) @ retryEvents key (Suc K)"
    using lt ih(1) by (simp add: failTimes_Suc trace_handleErr_retry)
  have cnt: "failures (failTimes (Suc K) e key w) key = Suc K"
    using lt ih(1) by (simp add: failTimes_Suc failures_handleErr)
  show ?case
    using step cnt ih(2) by simp
qed

lemma delays_retryEvents: "delays (concat (map (retryEvents key) ns)) = map backoff ns"
  by (induction ns) (simp_all add: retryEvents_def)

lemma backoff_strict: "1 \<le> m \<Longrightarrow> m < n \<Longrightarrow> backoff m < backoff n"
  by (simp add: backoff_def baseDelay_def)

lemma sorted_backoff: "sorted_wrt (<) (map backoff [1..<Suc K])"
  by (simp add: sorted_wrt_map sorted_wrt_iff_nth_less backoff_strict del: upt_Suc)

text \<open>
  C8. When a key has failed \<open>K\<close> times in a row, \<open>1 \<le> K < 15\<close>, starting from a reset
  counter, the delay computed for the K-th re-enqueue is 5ms * 2^(K-1) (5000000 ns times
  2^(K-1)); the delays of the \<open>K\<close> re-enqueues are 5ms * 2^0, ..., 5ms * 2^(K-1) in this
  order, strictly increasing.
\<close>

theorem backoff_doubles:
  assumes "failures w key = 0" and "1 \<le> K" and "K < 15"
  shows "last (trace (failTimes K e key w)) = QAddRateLimited key (5000000 * 2 ^ (K - 1)) \<and>
         delays (added w (failTimes K e key w)) = map (\<lambda>n. 5000000 * 2 ^ (n - 1)) [1..<Suc K] \<and>
         sorted_wrt (<) (delays (added w (failTimes K e key w)))"
proof -
  from assms have le: "K \<le> maxRetries" by (simp add: maxRetries_def)
  have tr: "trace (failTimes K e key w) = trace w @ concat (map (retryEvents key) [1..<Suc K])"
    using failTimes_state [OF assms(1) le] by simp
  then have ad: "added w (failTimes K e key w) = concat (map (retryEvents key) [1..<Suc K])"
    by (rule added_appended)
  obtain J where K: "K = Suc J" using assms(2) by (cases K) simp_all
  have "last (trace (failTimes K e key w)) = QAddRateLimited key (backoff K)"
    using tr by (simp add: K retryEvents_def)
  moreover have "delays (added w (failTimes K e key w)) = map backoff [1..<Suc K]"
    unfolding ad by (rule delays_retryEvents)
  moreover have "map backoff [1..<Suc K] = map (\<lambda>n. 5000000 * 2 ^ (n - 1)) [1..<Suc K]"
    by (simp add: backoff_def baseDelay_def)
  ultimately show ?thesis
    using sorted_backoff [of K] by (simp add: backoff_def baseDelay_def)
qed

theorem backoff_doubles_witness:
  "failures (freshWorld ()) exampleKey = 0 \<and> (1::nat) \<le> 3 \<and> (3::nat) < 15 \<and>
   last (trace (failTimes 3 ''boom'' exampleKey (freshWorld ()))) =
     QAddRateLimited exampleKey 20000000 \<and>
   delays (added (freshWorld ()) (failTimes 3 ''boom'' exampleKey (freshWorld ()))) =
     [5000000, 10000000, 20000000]"
proof -
  have h: "failures (freshWorld ()) exampleKey = 0" by (simp add: freshWorld_def)
  have k1: "(1::nat) \<le> 3" and k2: "(3::nat) < 15" by simp_all
  have u: "map (\<lambda>n::nat. 5000000 * 2 ^ (n - 1)) [1..<Suc 3] = [5000000, 10000000, 20000000::nat]"
    by (simp add: upt_rec)
  note th = backoff_doubles [OF h k1 k2, of "''boom''"]
  show ?thesis
    using h th [unfolded u] by simp
qed

subsection \<open>Event handlers\<close>

lemma deliver_eventHandler:
  "deliver (eventHandler optr) n w = queueAdd (workQueueKey optr) w"
  by (cases n) (simp_all add: eventHandler_def)

text \<open>
  C9. Whatever the notification (add, update or delete) and whatever its payload, the
  event handler makes exactly one queue call, \<open>Add\<close> of the key
  \<open>namespace/name\<close> of the operator; two notifications have the same effect; and the
  handler that \<open>New\<close> registers on each of the seven watched collections does so.
\<close>

theorem eventHandler_singleton_key:
  fixes n n' :: "'o notification" and w :: "'x world"
  shows
  "added w (deliver (eventHandler optr) n w) = [QAdd (namespace optr @ ''/'' @ name optr)] \<and>
   deliver (eventHandler optr) n w = deliver (eventHandler optr) n' w \<and>
   map fst (snd (New ns nm images cfg :: Operator \<times> (informer \<times> ('o, 'x) ResourceEventHandlerFuncs) list)) =
     [MachineSetInformer, ConfigMapInformer, ServiceAccountInformer, CRDInformer,
      DeployInformer, ClusterRoleInformer, ClusterRoleBindingInformer] \<and>
   (\<forall>(i, h) \<in> set (snd (New ns nm images cfg)).
      added w (deliver h n w) = [QAdd (ns @ ''/'' @ nm)])"
proof -
  have a: "added w (deliver (eventHandler optr) n w) = [QAdd (namespace optr @ ''/'' @ name optr)]"
    by (simp add: deliver_eventHandler added_appended workQueueKey_def)
  have b: "deliver (eventHandler optr) n w = deliver (eventHandler optr) n' w"
    by (simp add: deliver_eventHandler)
  have c: "map fst (snd (New ns nm images cfg :: Operator \<times> (informer \<times> ('o, 'x) ResourceEventHandlerFuncs) list)) =
     [MachineSetInformer, ConfigMapInformer, ServiceAccountInformer, CRDInformer,
      DeployInformer, ClusterRoleInformer, ClusterRoleBindingInformer]"
    by (simp add: New_def Let_def)
  have d: "\<forall>(i, h) \<in> set (snd (New ns nm images cfg)). added w (deliver h n w) = [QAdd (ns @ ''/'' @ nm)]"
    by (simp add: New_def Let_def deliver_eventHandler added_appended workQueueKey_def)
  from a b c d show ?thesis by blast
qed

theorem eventHandler_singleton_key_witness:
  "(ConfigMapInformer, eventHandler exampleOperator)
     \<in> set (snd (New ''openshift-machine-api'' ''machine-api-operator'' ''/etc/images.json'' []
                   :: Operator \<times> (informer \<times> (nat, unit) ResourceEventHandlerFuncs) list)) \<and>
   added (freshWorld ()) (deliver (eventHandler exampleOperator) (OnUpdate (1::nat) 2) (freshWorld ())) =
     [QAdd exampleKey]"
  using eventHandler_singleton_key
    [of "freshWorld ()" exampleOperator "OnUpdate (1::nat) 2" "OnUpdate (1::nat) 2"
        "''openshift-machine-api''" "''machine-api-operator''" "''/etc/images.json''" "[]"]
  by (simp add: exampleOperator_def exampleKey_def New_def Let_def)

subsection \<open>Configuration resolution\<close>

lemma mcFromClusterConfig_field:
  "Data cm ''mao-config'' = Data cm' ''mao-config'' \<Longrightarrow>
   mcFromClusterConfig optr env cm = mcFromClusterConfig optr env cm'"
  by (simp add: mcFromClusterConfig_def Let_def)

lemma mcFromClusterConfig_missing:
  "Data cm ''mao-config'' = None \<Longrightarrow>
   mcFromClusterConfig optr env cm = Inl ''mao-config doesn't exist''"
  by (simp add: mcFromClusterConfig_def Let_def)

lemma mcFromClusterConfig_parsed:
  "Data cm ''mao-config'' = Some mcData \<Longrightarrow> yamlUnmarshal env mcData = Inr parsed \<Longrightarrow>
   mcFromClusterConfig optr env cm =
     Inr (if TargetNamespace parsed = [] then parsed\<lparr>TargetNamespace := namespace optr\<rparr>
          else parsed)"
  by (simp add: mcFromClusterConfig_def Let_def)

lemma getOperatorConfig_found:
  "configMapsGet env ''kube-system'' ''cluster-config-v1'' x = Inr cm \<Longrightarrow>
   getOperatorConfig optr env x = mcFromClusterConfig optr env cm"
  by (simp add: getOperatorConfig_def Let_def)

lemma getOperatorConfig_absent:
  "configMapsGet env ''kube-system'' ''cluster-config-v1'' x = Inl err \<Longrightarrow>
   getOperatorConfig optr env x = Inl (''could not find cluster-config-v1 namespace: '' @ err)"
  by (simp add: getOperatorConfig_def Let_def)

lemma getOperatorConfig_reads:
  assumes same: "configMapsGet env ''kube-system'' ''cluster-config-v1'' x =
     configMapsGet env' ''kube-system'' ''cluster-config-v1'' x'"
    and parser: "yamlUnmarshal env = yamlUnmarshal env'"
  shows "getOperatorConfig optr env x = getOperatorConfig optr env' x'"
proof -
  have "mcFromClusterConfig optr env cm = mcFromClusterConfig optr env' cm" for cm
    unfolding mcFromClusterConfig_def parser ..
  then show ?thesis
    using same by (simp add: getOperatorConfig_def Let_def split: sum.splits)
qed

text \<open>
  C6. Configuration resolution reads the config map named \<open>cluster-config-v1\<close> in
  namespace \<open>kube-system\<close> (its result depends on the cluster through that read only)
  and uses only the field \<open>mao-config\<close> of it. When the field is missing the result is
  the error "mao-config doesn't exist" and no configuration. When the field parses to a
  configuration with an empty target namespace, the result is that configuration with
  the target namespace set to the operator's namespace.
\<close>

theorem config_resolution:
  "(configMapsGet env ''kube-system'' ''cluster-config-v1'' x =
      configMapsGet env' ''kube-system'' ''cluster-config-v1'' x' \<and>
    yamlUnmarshal env = yamlUnmarshal env' \<longrightarrow>
      getOperatorConfig optr env x = getOperatorConfig optr env' x') \<and>
   (Data cm ''mao-config'' = Data cm' ''mao-config'' \<longrightarrow>
      mcFromClusterConfig optr env cm = mcFromClusterConfig optr env cm') \<and>
   (configMapsGet env ''kube-system'' ''cluster-config-v1'' x = Inr cm \<and>
    Data cm ''mao-config'' = None \<longrightarrow>
      getOperatorConfig optr env x = Inl ''mao-config doesn't exist'') \<and>
   (configMapsGet env ''kube-system'' ''cluster-config-v1'' x = Inr cm \<and>
    Data cm ''mao-config'' = Some mcData \<and> yamlUnmarshal env mcData = Inr parsed \<and>
    TargetNamespace parsed = [] \<longrightarrow>
      getOperatorConfig optr env x = Inr (parsed\<lparr>TargetNamespace := namespace optr\<rparr>))"
proof (intro conjI impI)
  assume "configMapsGet env ''kube-system'' ''cluster-config-v1'' x =
      configMapsGet env' ''kube-system'' ''cluster-config-v1'' x' \<and>
    yamlUnmarshal env = yamlUnmarshal env'"
  then have "configMapsGet env ''kube-system'' ''cluster-config-v1'' x =
      configMapsGet env' ''kube-system'' ''cluster-config-v1'' x'"
    and "yamlUnmarshal env = yamlUnmarshal env'"
    by blast+
  then show "getOperatorConfig optr env x = getOperatorConfig optr env' x'"
    by (rule getOperatorConfig_reads)
next
  assume "Data cm ''mao-config'' = Data cm' ''mao-config''"
  then show "mcFromClusterConfig optr env cm = mcFromClusterConfig optr env cm'"
    by (rule mcFromClusterConfig_field)
next
  assume "configMapsGet env ''kube-system'' ''cluster-config-v1'' x = Inr cm \<and>
    Data cm ''mao-config'' = None"
  then show "getOperatorConfig optr env x = Inl ''mao-config doesn't exist''"
    by (simp add: getOperatorConfig_found mcFromClusterConfig_missing)
next
  assume "configMapsGet env ''kube-system'' ''cluster-config-v1'' x = Inr cm \<and>
    Data cm ''mao-config'' = Some mcData \<and> yamlUnmarshal env mcData = Inr parsed \<and>
    TargetNamespace parsed = []"
  then show "getOperatorConfig optr env x = Inr (parsed\<lparr>TargetNamespace := namespace optr\<rparr>)"
    by (simp add: getOperatorConfig_found mcFromClusterConfig_parsed)
qed

theorem config_resolution_witness:
  "getOperatorConfig exampleOperator missingFieldEnv (0, 0) = Inl ''mao-config doesn't exist'' \<and>
   getOperatorConfig exampleOperator goodEnv (0, 0) = Inr resolvedConfig"
proof -
  have a: "configMapsGet missingFieldEnv ''kube-system'' ''cluster-config-v1'' (0, 0) = Inr emptyConfigMap \<and>
      Data emptyConfigMap ''mao-config'' = None"
    by (simp add: missingFieldEnv_def scriptedEnv_def emptyConfigMap_def)
  have b: "configMapsGet goodEnv ''kube-system'' ''cluster-config-v1'' (0, 0) = Inr goodConfigMap \<and>
      Data goodConfigMap ''mao-config'' = Some ''provider: aws'' \<and>
      yamlUnmarshal goodEnv ''provider: aws'' =
        Inr \<lparr>TargetNamespace = [], Provider = ''aws'', Images = None\<rparr> \<and>
      TargetNamespace \<lparr>TargetNamespace = [], Provider = ''aws'', Images = None\<rparr> = []"
    by (simp add: goodEnv_def scriptedEnv_def goodConfigMap_def)
  have n: "namespace exampleOperator = ''openshift-machine-api''"
    by (simp add: exampleOperator_def New_def Let_def)
  from a config_resolution
    [where env = missingFieldEnv and x = "(0, 0)" and cm = emptyConfigMap and optr = exampleOperator
       and env' = missingFieldEnv and x' = "(0, 0)" and cm' = emptyConfigMap and mcData = "[]"
       and parsed = resolvedConfig]
  have "getOperatorConfig exampleOperator missingFieldEnv (0, 0) = Inl ''mao-config doesn't exist''"
    by blast
  moreover from b config_resolution
    [where env = goodEnv and x = "(0, 0)" and cm = goodConfigMap and optr = exampleOperator
       and env' = goodEnv and x' = "(0, 0)" and cm' = goodConfigMap
       and mcData = "''provider: aws''"
       and parsed = "\<lparr>TargetNamespace = [], Provider = ''aws'', Images = None\<rparr>"]
  have "getOperatorConfig exampleOperator goodEnv (0, 0) =
      Inr (\<lparr>TargetNamespace = [], Provider = ''aws'', Images = None\<rparr>
             \<lparr>TargetNamespace := namespace exampleOperator\<rparr>)"
    by blast
  ultimately show ?thesis
    by (simp add: n resolvedConfig_def)
qed


subsection \<open>The sync pipeline\<close>

lemma runStage_eq:
  "f (ext w) = (r, x') \<Longrightarrow> runStage s f w = (r, (emit (Stage s) w)\<lparr>ext := x'\<rparr>)"
  by (simp add: runStage_def)

lemma stagesOf_append [simp]: "stagesOf (xs @ ys) = stagesOf xs @ stagesOf ys"
  by (induction xs rule: stagesOf.induct) simp_all

lemma sync_stage1_fails:
  assumes "syncCustomResourceDefinitions env (ext w) = (Some err, x1)"
  shows "fst (sync optr env key w) = Return (Some err)"
    and "trace (snd (sync optr env key w)) = trace w @
          [Log (V 4) ''Started syncing operator %q (%v)'', Stage CustomResourceDefinitions,
           Log (V 4) ''Finished syncing operator %q (%v)'']"
    and "ext (snd (sync optr env key w)) = x1"
    and "failures (snd (sync optr env key w)) = failures w"
  using assms by (simp_all add: sync_def Let_def runStage_def finished_def)

lemma sync_stage2_fails:
  assumes "syncCustomResourceDefinitions env (ext w) = (None, x1)"
    and "getOperatorConfig optr env x1 = Inl err"
  shows "fst (sync optr env key w) = Exit"
    and "trace (snd (sync optr env key w)) = trace w @
          [Log (V 4) ''Started syncing operator %q (%v)'', Stage CustomResourceDefinitions,
           Log Info ''Getting operator config using kubeclient'', Stage ResolveConfig,
           Log Fatal ''Error decoding operator config: %v'']"
    and "ext (snd (sync optr env key w)) = x1"
    and "failures (snd (sync optr env key w)) = failures w"
  using assms by (simp_all add: sync_def Let_def runStage_def finished_def)

lemma sync_stage3_fails:
  assumes "syncCustomResourceDefinitions env (ext w) = (None, x1)"
    and "getOperatorConfig optr env x1 = Inr cfg0"
    and "updateImageDetails optr env cfg0 x1 = Inl err"
  shows "fst (sync optr env key w) = Exit"
    and "trace (snd (sync optr env key w)) = trace w @
          [Log (V 4) ''Started syncing operator %q (%v)'', Stage CustomResourceDefinitions,
           Log Info ''Getting operator config using kubeclient'', Stage ResolveConfig,
           Stage ImageDetails, Log Fatal ''Error getting image details: %v'']"
    and "ext (snd (sync optr env key w)) = x1"
    and "failures (snd (sync optr env key w)) = failures w"
  using assms by (simp_all add: sync_def Let_def runStage_def finished_def)

lemma sync_stage4_fails:
  assumes "syncCustomResourceDefinitions env (ext w) = (None, x1)"
    and "getOperatorConfig optr env x1 = Inr cfg0"
    and "updateImageDetails optr env cfg0 x1 = Inr cfg"
    and "syncClusterAPIServer env cfg x1 = (Some err, x4)"
  shows "fst (sync optr env key w) = Exit"
    and "trace (snd (sync optr env key w)) = trace w @
          [Log (V 4) ''Started syncing operator %q (%v)'', Stage CustomResourceDefinitions,
           Log Info ''Getting operator config using kubeclient'', Stage ResolveConfig,
           Stage ImageDetails, Stage ClusterAPIServer,
           Log Fatal ''Failed sync-up cluster apiserver: %v'']"
    and "ext (snd (sync optr env key w)) = x4"
    and "failures (snd (sync optr env key w)) = failures w"
  using assms by (simp_all add: sync_def Let_def runStage_def finished_def)

lemma sync_stage5_fails:
  assumes "syncCustomResourceDefinitions env (ext w) = (None, x1)"
    and "getOperatorConfig optr env x1 = Inr cfg0"
    and "updateImageDetails optr env cfg0 x1 = Inr cfg"
    and "syncClusterAPIServer env cfg x1 = (None, x4)"
    and "syncClusterAPIController env cfg x4 = (Some err, x5)"
  shows "fst (sync optr env key w) = Exit"
    and "trace (snd (sync optr env key w)) = trace w @
          [Log (V 4) ''Started syncing operator %q (%v)'', Stage CustomResourceDefinitions,
           Log Info ''Getting operator config using kubeclient'', Stage ResolveConfig,
           Stage ImageDetails, Stage ClusterAPIServer,
           Log Info ''Synched up cluster api server'', Stage ClusterAPIController,
           Log Fatal ''Failed sync-up cluster api controller: %v'']"
    and "ext (snd (sync optr env key w)) = x5"
    and "failures (snd (sync optr env key w)) = failures w"
  using assms by (simp_all add: sync_def Let_def runStage_def finished_def)

lemma sync_stage6_reached:
  assumes "syncCustomResourceDefinitions env (ext w) = (None, x1)"
    and "getOperatorConfig optr env x1 = Inr cfg0"
    and "updateImageDetails optr env cfg0 x1 = Inr cfg"
    and "syncClusterAPIServer env cfg x1 = (None, x4)"
    and "syncClusterAPIController env cfg x4 = (None, x5)"
    and "syncAll env cfg x5 = (r, x6)"
  shows "fst (sync optr env key w) = Return r"
    and "trace (snd (sync optr env key w)) = trace w @
          [Log (V 4) ''Started syncing operator %q (%v)'', Stage CustomResourceDefinitions,
           Log Info ''Getting operator config using kubeclient'', Stage ResolveConfig,
           Stage ImageDetails, Stage ClusterAPIServer,
           Log Info ''Synched up cluster api server'', Stage ClusterAPIController,
           Log Info ''Synched up cluster api controller'', Stage SyncAll,
           Log (V 4) ''Finished syncing operator %q (%v)'']"
    and "ext (snd (sync optr env key w)) = x6"
    and "failures (snd (sync optr env key w)) = failures w"
  using assms by (simp_all add: sync_def Let_def runStage_def finished_def)

lemma sync_stage1_summary:
  assumes "syncCustomResourceDefinitions env (ext w) = (Some err, x1)"
  shows "fst (sync optr env key w) = Return (Some err) \<and>
         stagesOf (added w (snd (sync optr env key w))) = [CustomResourceDefinitions] \<and>
         ext (snd (sync optr env key w)) = x1"
  using sync_stage1_fails [OF assms, of optr key]
  by (simp add: added_def)

lemma sync_stage2_summary:
  assumes "syncCustomResourceDefinitions env (ext w) = (None, x1)"
    and "getOperatorConfig optr env x1 = Inl err"
  shows "fst (sync optr env key w) = Exit \<and>
         stagesOf (added w (snd (sync optr env key w))) =
           [CustomResourceDefinitions, ResolveConfig] \<and>
         ext (snd (sync optr env key w)) = x1"
  using sync_stage2_fails [OF assms, of key]
  by (simp add: added_def)

lemma sync_stage3_summary:
  assumes "syncCustomResourceDefinitions env (ext w) = (None, x1)"
    and "getOperatorConfig optr env x1 = Inr cfg0"
    and "updateImageDetails optr env cfg0 x1 = Inl err"
  shows "fst (sync optr env key w) = Exit \<and>
         stagesOf (added w (snd (sync optr env key w))) =
           [CustomResourceDefinitions, ResolveConfig, ImageDetails] \<and>
         ext (snd (sync optr env key w)) = x1"
  using sync_stage3_fails [OF assms, of key]
  by (simp add: added_def)

lemma sync_stage4_summary:
  assumes "syncCustomResourceDefinitions env (ext w) = (None, x1)"
    and "getOperatorConfig optr env x1 = Inr cfg0"
    and "updateImageDetails optr env cfg0 x1 = Inr cfg"
    and "syncClusterAPIServer env cfg x1 = (Some err, x4)"
  shows "fst (sync optr env key w) = Exit \<and>
         stagesOf (added w (snd (sync optr env key w))) =
           [CustomResourceDefinitions, ResolveConfig, ImageDetails, ClusterAPIServer] \<and>
         ext (snd (sync optr env key w)) = x4"
  using sync_stage4_fails [OF assms, of key]
  by (simp add: added_def)

lemma sync_stage5_summary:
  assumes "syncCustomResourceDefinitions env (ext w) = (None, x1)"
    and "getOperatorConfig optr env x1 = Inr cfg0"
    and "updateImageDetails optr env cfg0 x1 = Inr cfg"
    and "syncClusterAPIServer env cfg x1 = (None, x4)"
    and "syncClusterAPIController env cfg x4 = (Some err, x5)"
  shows "fst (sync optr env key w) = Exit \<and>
         stagesOf (added w (snd (sync optr env key w))) =
           [CustomResourceDefinitions, ResolveConfig, ImageDetails, ClusterAPIServer,
            ClusterAPIController] \<and>
         ext (snd (sync optr env key w)) = x5"
  using sync_stage5_fails [OF assms, of key]
  by (simp add: added_def)

lemma sync_stage6_summary:
  assumes "syncCustomResourceDefinitions env (ext w) = (None, x1)"
    and "getOperatorConfig optr env x1 = Inr cfg0"
    and "updateImageDetails optr env cfg0 x1 = Inr cfg"
    and "syncClusterAPIServer env cfg x1 = (None, x4)"
    and "syncClusterAPIController env cfg x4 = (None, x5)"
    and "syncAll env cfg x5 = (r, x6)"
  shows "fst (sync optr env key w) = Return r \<and>
         stagesOf (added w (snd (sync optr env key w))) =
           [CustomResourceDefinitions, ResolveConfig, ImageDetails, ClusterAPIServer,
            ClusterAPIController, SyncAll] \<and>
         ext (snd (sync optr env key w)) = x6"
  using sync_stage6_reached [OF assms, of key]
  by (simp add: added_def)

text \<open>
  C4 (amended). \<open>sync\<close> runs its six stages in the order registration of the custom
  resource definitions, configuration resolution, image details, cluster-API server,
  cluster-API controller, general convergence. When a stage fails, no later stage is
  called and nothing is rolled back: the external state is the one the stages that ran
  have left. When the first or the last stage fails, \<open>sync\<close> returns that stage's
  error unchanged. When the second, third, fourth or fifth stage fails, \<open>sync\<close> logs at
  fatal level, which ends the process: it does not return.
\<close>

theorem sync_stage_order:
  "(syncCustomResourceDefinitions env (ext w) = (Some err, x1) \<longrightarrow>
      fst (sync optr env key w) = Return (Some err) \<and>
      stagesOf (added w (snd (sync optr env key w))) = [CustomResourceDefinitions] \<and>
      ext (snd (sync optr env key w)) = x1) \<and>
   (syncCustomResourceDefinitions env (ext w) = (None, x1) \<longrightarrow>
     (getOperatorConfig optr env x1 = Inl err \<longrightarrow>
        fst (sync optr env key w) = Exit \<and>
        stagesOf (added w (snd (sync optr env key w))) =
          [CustomResourceDefinitions, ResolveConfig] \<and>
        ext (snd (sync optr env key w)) = x1) \<and>
     (getOperatorConfig optr env x1 = Inr cfg0 \<longrightarrow>
       (updateImageDetails optr env cfg0 x1 = Inl err \<longrightarrow>
          fst (sync optr env key w) = Exit \<and>
          stagesOf (added w (snd (sync optr env key w))) =
            [CustomResourceDefinitions, ResolveConfig, ImageDetails] \<and>
          ext (snd (sync optr env key w)) = x1) \<and>
       (updateImageDetails optr env cfg0 x1 = Inr cfg \<longrightarrow>
         (syncClusterAPIServer env cfg x1 = (Some err, x4) \<longrightarrow>
            fst (sync optr env key w) = Exit \<and>
            stagesOf (added w (snd (sync optr env key w))) =
              [CustomResourceDefinitions, ResolveConfig, ImageDetails, ClusterAPIServer] \<and>
            ext (snd (sync optr env key w)) = x4) \<and>
         (syncClusterAPIServer env cfg x1 = (None, x4) \<longrightarrow>
           (syncClusterAPIController env cfg x4 = (Some err, x5) \<longrightarrow>
              fst (sync optr env key w) = Exit \<and>
              stagesOf (added w (snd (sync optr env key w))) =
                [CustomResourceDefinitions, ResolveConfig, ImageDetails, ClusterAPIServer,
                 ClusterAPIController] \<and>
              ext (snd (sync optr env key w)) = x5) \<and>
           (syncClusterAPIController env cfg x4 = (None, x5) \<and>
            syncAll env cfg x5 = (r, x6) \<longrightarrow>
              fst (sync optr env key w) = Return r \<and>
              stagesOf (added w (snd (sync optr env key w))) =
                [CustomResourceDefinitions, ResolveConfig, ImageDetails, ClusterAPIServer,
                 ClusterAPIController, SyncAll] \<and>
              ext (snd (sync optr env key w)) = x6)))))"
proof -
  note s1 = sync_stage1_summary [of env w err x1 optr key]
  note s2 = sync_stage2_summary [of env w x1 optr err key]
  note s3 = sync_stage3_summary [of env w x1 optr cfg0 err key]
  note s4 = sync_stage4_summary [of env w x1 optr cfg0 cfg err x4 key]
  note s5 = sync_stage5_summary [of env w x1 optr cfg0 cfg x4 err x5 key]
  note s6 = sync_stage6_summary [of env w x1 optr cfg0 cfg x4 x5 r x6 key]
  have s6': "fst (sync optr env key w) = Return r \<and>
      stagesOf (added w (snd (sync optr env key w))) =
        [CustomResourceDefinitions, ResolveConfig, ImageDetails, ClusterAPIServer,
         ClusterAPIController, SyncAll] \<and>
      ext (snd (sync optr env key w)) = x6"
    if "syncCustomResourceDefinitions env (ext w) = (None, x1)"
      "getOperatorConfig optr env x1 = Inr cfg0"
      "updateImageDetails optr env cfg0 x1 = Inr cfg"
      "syncClusterAPIServer env cfg x1 = (None, x4)"
      "syncClusterAPIController env cfg x4 = (None, x5) \<and> syncAll env cfg x5 = (r, x6)"
    using that s6 by simp
  show ?thesis
    using s1 s2 s3 s4 s5 s6' by blast
qed

text \<open>The scripted collaborators, evaluated.\<close>

lemma namespace_exampleOperator [simp]: "namespace exampleOperator = ''openshift-machine-api''"
  by (simp add: exampleOperator_def New_def Let_def)

lemma getOperatorConfig_scripted_good [simp]:
  "getOperatorConfig exampleOperator (scriptedEnv (Inr goodConfigMap) a b c d) x = Inr resolvedConfig"
  by (simp add: getOperatorConfig_def mcFromClusterConfig_def Let_def scriptedEnv_def
      goodConfigMap_def resolvedConfig_def)

lemma getOperatorConfig_scripted_empty [simp]:
  "getOperatorConfig optr (scriptedEnv (Inr emptyConfigMap) a b c d) x =
     Inl ''mao-config doesn't exist''"
  by (simp add: getOperatorConfig_def mcFromClusterConfig_def Let_def scriptedEnv_def
      emptyConfigMap_def)

lemma getOperatorConfig_scripted_absent [simp]:
  "getOperatorConfig optr (scriptedEnv (Inl e) a b c d) x =
     Inl (''could not find cluster-config-v1 namespace: '' @ e)"
  by (simp add: getOperatorConfig_def Let_def scriptedEnv_def)

lemma updateImageDetails_scripted [simp]:
  "updateImageDetails optr (scriptedEnv cm a b c d) cfg x = Inr (cfg\<lparr>Images := Some []\<rparr>)"
  by (simp add: updateImageDetails_def scriptedEnv_def)

lemma scripted_stages [simp]:
  "syncCustomResourceDefinitions (scriptedEnv cm a b c d) x = (a, x)"
  "syncClusterAPIServer (scriptedEnv cm a b c d) cfg x = (None, x)"
  "syncClusterAPIController (scriptedEnv cm a b c d) cfg x = (None, x)"
  "syncAll (scriptedEnv cm a b c d) cfg x = (b, x)"
  "syncCluster (scriptedEnv cm a b c d) cfg x = (c (fst x), (Suc (fst x), snd x))"
  "syncMachineSets (scriptedEnv cm a b c d) cfg x = (d (snd x), (fst x, Suc (snd x)))"
  by (simp_all add: scriptedEnv_def)

lemma freshWorld_simps [simp]:
  "ext (freshWorld x) = x" "trace (freshWorld x) = []" "failures (freshWorld x) = (\<lambda>k. 0)"
  by (simp_all add: freshWorld_def)

theorem sync_stage_order_witness:
  "fst (sync exampleOperator crdFailEnv exampleKey (freshWorld (0, 0))) =
     Return (Some ''crd failed'') \<and>
   stagesOf (added (freshWorld (0, 0))
              (snd (sync exampleOperator crdFailEnv exampleKey (freshWorld (0, 0))))) =
     [CustomResourceDefinitions] \<and>
   fst (sync exampleOperator allFailEnv exampleKey (freshWorld (0, 0))) =
     Return (Some ''syncAll failed'') \<and>
   stagesOf (added (freshWorld (0, 0))
              (snd (sync exampleOperator allFailEnv exampleKey (freshWorld (0, 0))))) =
     [CustomResourceDefinitions, ResolveConfig, ImageDetails, ClusterAPIServer,
      ClusterAPIController, SyncAll] \<and>
   fst (sync exampleOperator unreachableEnv exampleKey (freshWorld (0, 0))) = Exit \<and>
   stagesOf (added (freshWorld (0, 0))
              (snd (sync exampleOperator unreachableEnv exampleKey (freshWorld (0, 0))))) =
     [CustomResourceDefinitions, ResolveConfig]"
  using
    sync_stage_order [where env = crdFailEnv and w = "freshWorld (0, 0)" and err = "''crd failed''"
      and ?x1.0 = "(0, 0)" and optr = exampleOperator and key = exampleKey
      and ?cfg0.0 = resolvedConfig and cfg = resolvedConfig and ?x4.0 = "(0, 0)"
      and ?x5.0 = "(0, 0)" and r = None and ?x6.0 = "(0, 0)"]
    sync_stage_order [where env = allFailEnv and w = "freshWorld (0, 0)" and err = "[]"
      and ?x1.0 = "(0, 0)" and optr = exampleOperator and key = exampleKey
      and ?cfg0.0 = resolvedConfig and cfg = "resolvedConfig\<lparr>Images := Some []\<rparr>"
      and ?x4.0 = "(0, 0)" and ?x5.0 = "(0, 0)" and r = "Some ''syncAll failed''"
      and ?x6.0 = "(0, 0)"]
    sync_stage_order [where env = unreachableEnv and w = "freshWorld (0, 0)"
      and err = "''could not find cluster-config-v1 namespace: connection refused''"
      and ?x1.0 = "(0, 0)" and optr = exampleOperator and key = exampleKey
      and ?cfg0.0 = resolvedConfig and cfg = resolvedConfig and ?x4.0 = "(0, 0)"
      and ?x5.0 = "(0, 0)" and r = None and ?x6.0 = "(0, 0)"]
  by (simp add: crdFailEnv_def allFailEnv_def unreachableEnv_def)

theorem sync_returns_stage_error_counterexample:
  "getOperatorConfig exampleOperator missingFieldEnv (0, 0) = Inl ''mao-config doesn't exist'' \<and>
   fst (sync exampleOperator missingFieldEnv exampleKey (freshWorld (0, 0))) = Exit \<and>
   fst (sync exampleOperator missingFieldEnv exampleKey (freshWorld (0, 0)))
     \<noteq> Return (Some ''mao-config doesn't exist'')"
proof -
  have a: "syncCustomResourceDefinitions missingFieldEnv (ext (freshWorld (0, 0))) = (None, (0, 0))"
    by (simp add: missingFieldEnv_def)
  have b: "getOperatorConfig exampleOperator missingFieldEnv (0, 0) = Inl ''mao-config doesn't exist''"
    by (simp add: missingFieldEnv_def)
  show ?thesis
    using b sync_stage2_fails(1) [OF a b, of exampleKey] by simp
qed

subsection \<open>The worker\<close>

lemma handleErr_appends:
  "\<exists>es. trace (handleErr err key w) = trace w @ es \<and> (\<forall>k. QDone k \<notin> set es)"
proof (cases err)
  case None
  then show ?thesis by (simp add: trace_handleErr_nil)
next
  case (Some e)
  show ?thesis
  proof (cases "failures w key < maxRetries")
    case True
    then show ?thesis using Some by (simp add: trace_handleErr_retry retryEvents_def)
  next
    case False
    then show ?thesis using Some by (simp add: trace_handleErr_drop)
  qed
qed

lemma count_list_absent: "x \<notin> set xs \<Longrightarrow> count_list xs x = 0"
  by (induction xs) auto

lemma processNextWorkItem_quit:
  "processNextWorkItem syncHandler (key, True) w = (Return False, emit QGet w)"
  by (simp add: processNextWorkItem_def Let_def)

lemma processNextWorkItem_returns:
  "syncHandler key (emit QGet w) = (Return err, w') \<Longrightarrow>
   processNextWorkItem syncHandler (key, False) w =
     (Return True, queueDone key (handleErr err key w'))"
  by (simp add: processNextWorkItem_def Let_def)

lemma processNextWorkItem_exits:
  "syncHandler key (emit QGet w) = (Exit, w') \<Longrightarrow>
   processNextWorkItem syncHandler (key, False) w = (Exit, w')"
  by (simp add: processNextWorkItem_def Let_def)

text \<open>
  C10 (amended). \<open>processNextWorkItem\<close> returns false exactly when \<open>Get\<close> reports that
  the queue is shutting down, and then calls neither the sync handler nor \<open>Done\<close>. For
  an item that was dequeued and whose sync handler returns, with \<open>nil\<close> or with an
  error, \<open>handleErr\<close> is called with that result and then \<open>Done\<close> is called on the item,
  exactly once, as the last action, and the function returns true. When the sync handler
  ends the process instead of returning, neither \<open>handleErr\<close> nor \<open>Done\<close> is called.
\<close>

theorem processNextWorkItem_done_once:
  "(fst (processNextWorkItem syncHandler (key, quit) w) = Return False \<longleftrightarrow> quit) \<and>
   (quit \<longrightarrow> added w (snd (processNextWorkItem syncHandler (key, quit) w)) = [QGet]) \<and>
   (\<not> quit \<and> syncHandler key (emit QGet w) = (Return err, w') \<longrightarrow>
      processNextWorkItem syncHandler (key, quit) w =
        (Return True, queueDone key (handleErr err key w')) \<and>
      added w' (snd (processNextWorkItem syncHandler (key, quit) w)) =
        added w' (handleErr err key w') @ [QDone key] \<and>
      count_list (added w' (snd (processNextWorkItem syncHandler (key, quit) w))) (QDone key) = 1) \<and>
   (\<not> quit \<and> syncHandler key (emit QGet w) = (Exit, w') \<longrightarrow>
      processNextWorkItem syncHandler (key, quit) w = (Exit, w'))"
proof (intro conjI impI)
  show "fst (processNextWorkItem syncHandler (key, quit) w) = Return False \<longleftrightarrow> quit"
    by (simp add: processNextWorkItem_def Let_def split: prod.splits outcome.splits)
next
  assume quit
  then show "added w (snd (processNextWorkItem syncHandler (key, quit) w)) = [QGet]"
    by (simp add: processNextWorkItem_quit added_appended)
next
  assume h: "\<not> quit \<and> syncHandler key (emit QGet w) = (Return err, w')"
  then show run: "processNextWorkItem syncHandler (key, quit) w =
        (Return True, queueDone key (handleErr err key w'))"
    by (simp add: processNextWorkItem_returns)
  obtain es where es: "trace (handleErr err key w') = trace w' @ es" "\<forall>k. QDone k \<notin> set es"
    using handleErr_appends by blast
  have hes: "added w' (handleErr err key w') = es"
    using es(1) by (rule added_appended)
  show all: "added w' (snd (processNextWorkItem syncHandler (key, quit) w)) =
        added w' (handleErr err key w') @ [QDone key]"
    unfolding run hes by (simp add: added_appended es(1))
  show "count_list (added w' (snd (processNextWorkItem syncHandler (key, quit) w))) (QDone key) = 1"
    unfolding all hes using es(2) by (simp add: count_list_absent)
next
  assume "\<not> quit \<and> syncHandler key (emit QGet w) = (Exit, w')"
  then show "processNextWorkItem syncHandler (key, quit) w = (Exit, w')"
    by (simp add: processNextWorkItem_exits)
qed

lemma sync_unreachable:
  "sync exampleOperator unreachableEnv exampleKey (emit QGet (freshWorld (0, 0))) =
     (Exit, \<lparr>ext = (0, 0), failures = (\<lambda>k. 0),
             trace = [QGet, Log (V 4) ''Started syncing operator %q (%v)'',
                      Stage CustomResourceDefinitions,
                      Log Info ''Getting operator config using kubeclient'',
                      Stage ResolveConfig, Log Fatal ''Error decoding operator config: %v'']\<rparr>)"
  by (simp add: sync_def Let_def runStage_def unreachableEnv_def emit_def freshWorld_def)

theorem processNextWorkItem_done_counterexample:
  "fst (processNextWorkItem (sync exampleOperator unreachableEnv) (exampleKey, False)
          (freshWorld (0, 0))) = Exit \<and>
   count_list (trace (snd (processNextWorkItem (sync exampleOperator unreachableEnv)
          (exampleKey, False) (freshWorld (0, 0))))) (QDone exampleKey) = 0 \<and>
   filter isQueueCall (trace (snd (processNextWorkItem (sync exampleOperator unreachableEnv)
          (exampleKey, False) (freshWorld (0, 0))))) = [QGet]"
  by (simp add: processNextWorkItem_exits
      [of "sync exampleOperator unreachableEnv" exampleKey "freshWorld (0, 0)", OF sync_unreachable])

lemma sync_good:
  "sync exampleOperator goodEnv exampleKey (emit QGet (freshWorld (0, 0))) =
     (Return None, \<lparr>ext = (0, 0), failures = (\<lambda>k. 0),
             trace = [QGet, Log (V 4) ''Started syncing operator %q (%v)'',
                      Stage CustomResourceDefinitions,
                      Log Info ''Getting operator config using kubeclient'',
                      Stage ResolveConfig, Stage ImageDetails, Stage ClusterAPIServer,
                      Log Info ''Synched up cluster api server'', Stage ClusterAPIController,
                      Log Info ''Synched up cluster api controller'', Stage SyncAll,
                      Log (V 4) ''Finished syncing operator %q (%v)'']\<rparr>)"
  by (simp add: sync_def Let_def runStage_def goodEnv_def emit_def freshWorld_def finished_def)

lemma sync_allFail:
  "sync exampleOperator allFailEnv exampleKey (emit QGet (freshWorld (0, 0))) =
     (Return (Some ''syncAll failed''), \<lparr>ext = (0, 0), failures = (\<lambda>k. 0),
             trace = [QGet, Log (V 4) ''Started syncing operator %q (%v)'',
                      Stage CustomResourceDefinitions,
                      Log Info ''Getting operator config using kubeclient'',
                      Stage ResolveConfig, Stage ImageDetails, Stage ClusterAPIServer,
                      Log Info ''Synched up cluster api server'', Stage ClusterAPIController,
                      Log Info ''Synched up cluster api controller'', Stage SyncAll,
                      Log (V 4) ''Finished syncing operator %q (%v)'']\<rparr>)"
  by (simp add: sync_def Let_def runStage_def allFailEnv_def emit_def freshWorld_def finished_def)

theorem processNextWorkItem_done_once_witness:
  "fst (processNextWorkItem (sync exampleOperator allFailEnv) (exampleKey, False)
          (freshWorld (0, 0))) = Return True \<and>
   filter isQueueCall (trace (snd (processNextWorkItem (sync exampleOperator allFailEnv)
          (exampleKey, False) (freshWorld (0, 0))))) =
     [QGet, QNumRequeues exampleKey, QAddRateLimited exampleKey 5000000, QDone exampleKey] \<and>
   fst (processNextWorkItem (sync exampleOperator allFailEnv) (exampleKey, True)
          (freshWorld (0, 0))) = Return False"
  using processNextWorkItem_done_once
    [of "sync exampleOperator allFailEnv" exampleKey False "freshWorld (0, 0)"
        "Some ''syncAll failed''"
        "snd (sync exampleOperator allFailEnv exampleKey (emit QGet (freshWorld (0, 0))))"]
    processNextWorkItem_done_once
    [of "sync exampleOperator allFailEnv" exampleKey True "freshWorld (0, 0)" None "freshWorld (0, 0)"]
  by (simp add: sync_allFail handleErr_def queueNumRequeues_def maxRetries_def
      backoff_def baseDelay_def)

lemma sync_no_queue_calls:
  "\<exists>es. trace (snd (sync optr env key w)) = trace w @ es \<and> filter isQueueCall es = []"
  by (simp add: sync_def Let_def runStage_def finished_def
      split: prod.splits option.splits sum.splits)

lemma sync_failures [simp]: "failures (snd (sync optr env key w)) = failures w"
  by (simp add: sync_def Let_def runStage_def finished_def
      split: prod.splits option.splits sum.splits)

lemma sync_after_get:
  assumes "sync optr env key (emit QGet w) = (r, w')"
  shows "filter isQueueCall (added w w') = [QGet]"
proof -
  obtain es where es: "trace (snd (sync optr env key (emit QGet w))) = trace (emit QGet w) @ es"
    "filter isQueueCall es = []"
    using sync_no_queue_calls by blast
  from es(1) assms have "trace w' = trace w @ (QGet # es)" by simp
  then have "added w w' = QGet # es" by (rule added_appended)
  then show ?thesis using es(2) by simp
qed

text \<open>
  C1 (amended). For a key a worker has pulled: every error that \<open>sync\<close> returns is
  handed to \<open>handleErr\<close>, after which \<open>Done\<close> is called and the worker carries on;
  \<open>handleErr\<close> never ends the process. \<open>sync\<close> returns the error when its first stage
  (registration of the custom resource definitions) or its last stage (general
  convergence) fails. When configuration resolution, image details, the cluster-API
  server or the cluster-API controller fails, \<open>sync\<close> ends the process with a fatal log:
  the worker makes no queue call after \<open>Get\<close>, and \<open>handleErr\<close> is not reached.
\<close>

theorem worker_error_disposition:
  "(sync optr env key (emit QGet w) = (Return r, w') \<longrightarrow>
      processNextWorkItem (sync optr env) (key, False) w =
        (Return True, queueDone key (handleErr r key w'))) \<and>
   (sync optr env key (emit QGet w) = (Exit, w') \<longrightarrow>
      processNextWorkItem (sync optr env) (key, False) w = (Exit, w') \<and>
      filter isQueueCall (added w w') = [QGet]) \<and>
   (syncCustomResourceDefinitions env (ext w) = (Some err, x1) \<longrightarrow>
      fst (sync optr env key (emit QGet w)) = Return (Some err)) \<and>
   (syncCustomResourceDefinitions env (ext w) = (None, x1) \<longrightarrow>
     (getOperatorConfig optr env x1 = Inl err \<longrightarrow>
        fst (sync optr env key (emit QGet w)) = Exit) \<and>
     (getOperatorConfig optr env x1 = Inr cfg0 \<longrightarrow>
       (updateImageDetails optr env cfg0 x1 = Inl err \<longrightarrow>
          fst (sync optr env key (emit QGet w)) = Exit) \<and>
       (updateImageDetails optr env cfg0 x1 = Inr cfg \<longrightarrow>
         (syncClusterAPIServer env cfg x1 = (Some err, x4) \<longrightarrow>
            fst (sync optr env key (emit QGet w)) = Exit) \<and>
         (syncClusterAPIServer env cfg x1 = (None, x4) \<longrightarrow>
           (syncClusterAPIController env cfg x4 = (Some err, x5) \<longrightarrow>
              fst (sync optr env key (emit QGet w)) = Exit) \<and>
           (syncClusterAPIController env cfg x4 = (None, x5) \<and>
            syncAll env cfg x5 = (err', x6) \<longrightarrow>
              fst (sync optr env key (emit QGet w)) = Return err')))))"
proof -
  let ?v = "emit QGet w"
  have e: "ext ?v = ext w" by simp
  note s1 = sync_stage1_fails(1) [of env ?v err x1 optr key, unfolded e]
  note s2 = sync_stage2_fails(1) [of env ?v x1 optr err key, unfolded e]
  note s3 = sync_stage3_fails(1) [of env ?v x1 optr cfg0 err key, unfolded e]
  note s4 = sync_stage4_fails(1) [of env ?v x1 optr cfg0 cfg err x4 key, unfolded e]
  note s5 = sync_stage5_fails(1) [of env ?v x1 optr cfg0 cfg x4 err x5 key, unfolded e]
  note s6 = sync_stage6_reached(1) [of env ?v x1 optr cfg0 cfg x4 x5 err' x6 key, unfolded e]
  have a: "processNextWorkItem (sync optr env) (key, False) w =
        (Return True, queueDone key (handleErr r key w'))"
    if "sync optr env key (emit QGet w) = (Return r, w')"
    using that by (rule processNextWorkItem_returns)
  have b1: "processNextWorkItem (sync optr env) (key, False) w = (Exit, w')"
    if "sync optr env key (emit QGet w) = (Exit, w')"
    using that by (rule processNextWorkItem_exits)
  have b2: "filter isQueueCall (added w w') = [QGet]"
    if "sync optr env key (emit QGet w) = (Exit, w')"
    using that by (rule sync_after_get)
  have s6': "fst (sync optr env key (emit QGet w)) = Return err'"
    if "syncCustomResourceDefinitions env (ext w) = (None, x1)"
      "getOperatorConfig optr env x1 = Inr cfg0"
      "updateImageDetails optr env cfg0 x1 = Inr cfg"
      "syncClusterAPIServer env cfg x1 = (None, x4)"
      "syncClusterAPIController env cfg x4 = (None, x5) \<and> syncAll env cfg x5 = (err', x6)"
    using that s6 by simp
  show ?thesis
    using a b1 b2 s1 s2 s3 s4 s5 s6' by blast
qed

lemma sync_missingField:
  "sync exampleOperator missingFieldEnv exampleKey (emit QGet (freshWorld (0, 0))) =
     (Exit, \<lparr>ext = (0, 0), failures = (\<lambda>k. 0),
             trace = [QGet, Log (V 4) ''Started syncing operator %q (%v)'',
                      Stage CustomResourceDefinitions,
                      Log Info ''Getting operator config using kubeclient'',
                      Stage ResolveConfig, Log Fatal ''Error decoding operator config: %v'']\<rparr>)"
  by (simp add: sync_def Let_def runStage_def missingFieldEnv_def emit_def freshWorld_def)

lemma sync_crdFail:
  "sync exampleOperator crdFailEnv exampleKey (emit QGet (freshWorld (0, 0))) =
     (Return (Some ''crd failed''), \<lparr>ext = (0, 0), failures = (\<lambda>k. 0),
             trace = [QGet, Log (V 4) ''Started syncing operator %q (%v)'',
                      Stage CustomResourceDefinitions,
                      Log (V 4) ''Finished syncing operator %q (%v)'']\<rparr>)"
  by (simp add: sync_def Let_def runStage_def crdFailEnv_def emit_def freshWorld_def finished_def)

theorem worker_never_exits_counterexample:
  "getOperatorConfig exampleOperator missingFieldEnv (0, 0) = Inl ''mao-config doesn't exist'' \<and>
   processNextWorkItem (sync exampleOperator missingFieldEnv) (exampleKey, False)
       (freshWorld (0, 0)) =
     (Exit, \<lparr>ext = (0, 0), failures = (\<lambda>k. 0),
             trace = [QGet, Log (V 4) ''Started syncing operator %q (%v)'',
                      Stage CustomResourceDefinitions,
                      Log Info ''Getting operator config using kubeclient'',
                      Stage ResolveConfig, Log Fatal ''Error decoding operator config: %v'']\<rparr>)"
  using processNextWorkItem_exits
      [of "sync exampleOperator missingFieldEnv" exampleKey "freshWorld (0, 0)", OF sync_missingField]
  by (simp add: missingFieldEnv_def)

theorem worker_error_disposition_witness:
  "sync exampleOperator crdFailEnv exampleKey (emit QGet (freshWorld (0, 0))) =
     (Return (Some ''crd failed''),
      snd (sync exampleOperator crdFailEnv exampleKey (emit QGet (freshWorld (0, 0))))) \<and>
   fst (processNextWorkItem (sync exampleOperator crdFailEnv) (exampleKey, False)
          (freshWorld (0, 0))) = Return True \<and>
   filter isQueueCall (trace (snd (processNextWorkItem (sync exampleOperator crdFailEnv)
          (exampleKey, False) (freshWorld (0, 0))))) =
     [QGet, QNumRequeues exampleKey, QAddRateLimited exampleKey 5000000, QDone exampleKey] \<and>
   fst (processNextWorkItem (sync exampleOperator missingFieldEnv) (exampleKey, False)
          (freshWorld (0, 0))) = Exit"
  using worker_error_disposition
    [where optr = exampleOperator and env = crdFailEnv and key = exampleKey
       and w = "freshWorld (0, 0)" and r = "Some ''crd failed''"
       and w' = "snd (sync exampleOperator crdFailEnv exampleKey (emit QGet (freshWorld (0, 0))))"
       and err = "''crd failed''" and ?x1.0 = "(0, 0)" and ?cfg0.0 = resolvedConfig
       and cfg = resolvedConfig and ?x4.0 = "(0, 0)" and ?x5.0 = "(0, 0)" and err' = None
       and ?x6.0 = "(0, 0)"]
    worker_error_disposition
    [where optr = exampleOperator and env = missingFieldEnv and key = exampleKey
       and w = "freshWorld (0, 0)" and r = None
       and w' = "snd (sync exampleOperator missingFieldEnv exampleKey (emit QGet (freshWorld (0, 0))))"
       and err = "''mao-config doesn't exist''" and ?x1.0 = "(0, 0)" and ?cfg0.0 = resolvedConfig
       and cfg = resolvedConfig and ?x4.0 = "(0, 0)" and ?x5.0 = "(0, 0)" and err' = None
       and ?x6.0 = "(0, 0)"]
  by (simp add: sync_crdFail sync_missingField handleErr_def queueNumRequeues_def maxRetries_def
      backoff_def baseDelay_def)

subsection \<open>The bootstrap loop\<close>

lemma tick_config_fails:
  assumes "getOperatorConfig optr env (ext w) = Inl err"
  shows "rolloutCondition optr env w =
           ((False, Some (''error decoding operator config: '' @ err)),
            emit (Stage ResolveConfig) w)"
  using assms by (simp add: rolloutCondition_def Let_def)

lemma tick_images_fail:
  assumes "getOperatorConfig optr env (ext w) = Inr cfg0"
    and "updateImageDetails optr env cfg0 (ext w) = Inl err"
  shows "rolloutCondition optr env w =
           ((False, Some (''error getting image details: '' @ err)),
            emit (Stage ImageDetails) (emit (Stage ResolveConfig) w))"
  using assms by (simp add: rolloutCondition_def Let_def)

lemma tick_cluster_fails:
  assumes "getOperatorConfig optr env (ext w) = Inr cfg0"
    and "updateImageDetails optr env cfg0 (ext w) = Inr cfg"
    and "syncCluster env cfg (ext w) = (Some err, x3)"
  shows "fst (rolloutCondition optr env w) = (False, None)"
    and "trace (snd (rolloutCondition optr env w)) = trace w @
          [Stage ResolveConfig, Stage ImageDetails, Log Info ''images %+v'',
           Log Info ''Trying to deploy Cluster object'', Stage CreateCluster,
           Log Info ''Cannot create cluster, retrying: %v'']"
    and "ext (snd (rolloutCondition optr env w)) = x3"
  using assms by (simp_all add: rolloutCondition_def Let_def runStage_def)

lemma tick_machineSets_fail:
  assumes "getOperatorConfig optr env (ext w) = Inr cfg0"
    and "updateImageDetails optr env cfg0 (ext w) = Inr cfg"
    and "syncCluster env cfg (ext w) = (None, x3)"
    and "syncMachineSets env cfg x3 = (Some err, x4)"
  shows "fst (rolloutCondition optr env w) = (False, None)"
    and "trace (snd (rolloutCondition optr env w)) = trace w @
          [Stage ResolveConfig, Stage ImageDetails, Log Info ''images %+v'',
           Log Info ''Trying to deploy Cluster object'', Stage CreateCluster,
           Log Info ''Created Cluster object'', Log Info ''Trying to deploy MachineSet object'',
           Stage CreateMachineSets, Log Info ''Cannot create MachineSet, retrying: %v'']"
    and "ext (snd (rolloutCondition optr env w)) = x4"
  using assms by (simp_all add: rolloutCondition_def Let_def runStage_def)

lemma tick_done:
  assumes "getOperatorConfig optr env (ext w) = Inr cfg0"
    and "updateImageDetails optr env cfg0 (ext w) = Inr cfg"
    and "syncCluster env cfg (ext w) = (None, x3)"
    and "syncMachineSets env cfg x3 = (None, x4)"
  shows "fst (rolloutCondition optr env w) = (True, None)"
    and "trace (snd (rolloutCondition optr env w)) = trace w @
          [Stage ResolveConfig, Stage ImageDetails, Log Info ''images %+v'',
           Log Info ''Trying to deploy Cluster object'', Stage CreateCluster,
           Log Info ''Created Cluster object'', Log Info ''Trying to deploy MachineSet object'',
           Stage CreateMachineSets, createdMachineSet]"
    and "ext (snd (rolloutCondition optr env w)) = x4"
  using assms by (simp_all add: rolloutCondition_def Let_def runStage_def createdMachineSet_def)

lemma Poll_error:
  "fst (condition w) = (ok, Some e) \<Longrightarrow>
   Poll (Suc n) condition w = (Some e, snd (condition w))"
  by (cases "condition w") (auto split: bool.splits)

lemma Poll_done:
  "fst (condition w) = (True, None) \<Longrightarrow> Poll (Suc n) condition w = (None, snd (condition w))"
  by (cases "condition w") (auto split: prod.splits)

lemma Poll_pending:
  "fst (condition w) = (False, None) \<Longrightarrow>
   Poll (Suc n) condition w = Poll n condition (snd (condition w))"
  by (cases "condition w") (auto split: prod.splits)

lemma Poll_allPending:
  "allPending n condition w \<Longrightarrow> fst (Poll n condition w) = Some ErrWaitTimeout"
  by (induction n arbitrary: w) (simp_all add: Poll_pending del: Poll.simps(2))

lemma bootstrap_error:
  "fst (Poll ticks (rolloutCondition optr env) w) = Some e \<Longrightarrow>
   bootstrap optr env ticks w =
     (Exit, emit (Log Fatal ''Error out while trying to deploy machines: %v'')
              (snd (Poll ticks (rolloutCondition optr env) w)))"
  by (cases "Poll ticks (rolloutCondition optr env) w") (simp add: bootstrap_def)

lemma bootstrap_done:
  "fst (Poll ticks (rolloutCondition optr env) w) = None \<Longrightarrow>
   bootstrap optr env ticks w = (Return (), snd (Poll ticks (rolloutCondition optr env) w))"
  by (cases "Poll ticks (rolloutCondition optr env) w") (simp add: bootstrap_def)

lemma tick_cases [case_names config images cluster machineSets created]:
  obtains err where "getOperatorConfig optr env (ext w) = Inl err"
  | cfg0 err where "getOperatorConfig optr env (ext w) = Inr cfg0"
      "updateImageDetails optr env cfg0 (ext w) = Inl err"
  | cfg0 cfg err x3 where "getOperatorConfig optr env (ext w) = Inr cfg0"
      "updateImageDetails optr env cfg0 (ext w) = Inr cfg"
      "syncCluster env cfg (ext w) = (Some err, x3)"
  | cfg0 cfg x3 err x4 where "getOperatorConfig optr env (ext w) = Inr cfg0"
      "updateImageDetails optr env cfg0 (ext w) = Inr cfg"
      "syncCluster env cfg (ext w) = (None, x3)"
      "syncMachineSets env cfg x3 = (Some err, x4)"
  | cfg0 cfg x3 x4 where "getOperatorConfig optr env (ext w) = Inr cfg0"
      "updateImageDetails optr env cfg0 (ext w) = Inr cfg"
      "syncCluster env cfg (ext w) = (None, x3)"
      "syncMachineSets env cfg x3 = (None, x4)"
proof (cases "getOperatorConfig optr env (ext w)")
  case (Inl err)
  then show ?thesis using that(1) by blast
next
  case goc: (Inr cfg0)
  show ?thesis
  proof (cases "updateImageDetails optr env cfg0 (ext w)")
    case (Inl err)
    with goc show ?thesis using that(2) by blast
  next
    case uid: (Inr cfg)
    obtain r3 x3 where c: "syncCluster env cfg (ext w) = (r3, x3)"
      by (metis prod.exhaust)
    show ?thesis
    proof (cases r3)
      case (Some err)
      with goc uid c show ?thesis using that(3) by blast
    next
      case None
      obtain r4 x4 where m: "syncMachineSets env cfg x3 = (r4, x4)"
        by (metis prod.exhaust)
      show ?thesis
      proof (cases r4)
        case (Some err)
        with goc uid c m None show ?thesis using that(4) by blast
      next
        case r4: None
        with goc uid c m None show ?thesis using that(5) by blast
      qed
    qed
  qed
qed

lemma tick_success_trace:
  assumes "fst (rolloutCondition optr env w) = (True, None)"
  shows "\<exists>pre. trace (snd (rolloutCondition optr env w)) = trace w @ pre @ [createdMachineSet] \<and>
         createdMachineSet \<notin> set pre"
proof (cases rule: tick_cases [of optr env w])
  case (config err)
  with assms show ?thesis by (simp add: tick_config_fails)
next
  case (images cfg0 err)
  with assms show ?thesis by (simp add: tick_images_fail)
next
  case (cluster cfg0 cfg err x3)
  with assms show ?thesis using tick_cluster_fails(1) by fastforce
next
  case (machineSets cfg0 cfg x3 err x4)
  with assms show ?thesis using tick_machineSets_fail(1) by fastforce
next
  case (created cfg0 cfg x3 x4)
  have "trace (snd (rolloutCondition optr env w)) = trace w @
      [Stage ResolveConfig, Stage ImageDetails, Log Info ''images %+v'',
       Log Info ''Trying to deploy Cluster object'', Stage CreateCluster,
       Log Info ''Created Cluster object'', Log Info ''Trying to deploy MachineSet object'',
       Stage CreateMachineSets] @ [createdMachineSet]"
    using tick_done(2) [OF created] by simp
  moreover have "createdMachineSet \<notin> set
      [Stage ResolveConfig, Stage ImageDetails, Log Info ''images %+v'',
       Log Info ''Trying to deploy Cluster object'', Stage CreateCluster,
       Log Info ''Created Cluster object'', Log Info ''Trying to deploy MachineSet object'',
       Stage CreateMachineSets]"
    by (simp add: createdMachineSet_def)
  ultimately show ?thesis by blast
qed

lemma tick_other_trace:
  assumes "fst (rolloutCondition optr env w) \<noteq> (True, None)"
  shows "\<exists>es. trace (snd (rolloutCondition optr env w)) = trace w @ es \<and>
        createdMachineSet \<notin> set es"
proof (cases rule: tick_cases [of optr env w])
  case (config err)
  then show ?thesis by (simp add: tick_config_fails createdMachineSet_def)
next
  case (images cfg0 err)
  then show ?thesis by (simp add: tick_images_fail createdMachineSet_def)
next
  case (cluster cfg0 cfg err x3)
  then show ?thesis using tick_cluster_fails(2) [OF cluster] by (simp add: createdMachineSet_def)
next
  case (machineSets cfg0 cfg x3 err x4)
  then show ?thesis
    using tick_machineSets_fail(2) [OF machineSets] by (simp add: createdMachineSet_def)
next
  case (created cfg0 cfg x3 x4)
  with assms show ?thesis using tick_done(1) [OF created] by simp
qed

text \<open>
  What a run of the poll adds to the trace: either no success log at all, or the success
  log once, as its last event.
\<close>

lemma Poll_trace:
  "\<exists>es. trace (snd (Poll n (rolloutCondition optr env) w)) = trace w @ es \<and>
        (if fst (Poll n (rolloutCondition optr env) w) = None
         then \<exists>pre. es = pre @ [createdMachineSet] \<and> createdMachineSet \<notin> set pre
         else createdMachineSet \<notin> set es)"
proof (induction n arbitrary: w)
  case 0
  show ?case by simp
next
  case (Suc n)
  let ?c = "rolloutCondition optr env"
  obtain ok e w' where c: "?c w = ((ok, e), w')"
    by (metis prod.exhaust)
  show ?case
  proof (cases e)
    case (Some err)
    with c have p: "Poll (Suc n) ?c w = (Some err, w')"
      using Poll_error [of ?c w ok err n] by simp
    from c Some have "fst (?c w) \<noteq> (True, None)" by simp
    from tick_other_trace [OF this] c p show ?thesis by simp
  next
    case None
    show ?thesis
    proof (cases ok)
      case True
      with c None have p: "Poll (Suc n) ?c w = (None, w')"
        using Poll_done [of ?c w n] by simp
      from c None True have "fst (?c w) = (True, None)" by simp
      from tick_success_trace [OF this] c p show ?thesis by auto
    next
      case False
      with c None have p: "Poll (Suc n) ?c w = Poll n ?c w'"
        using Poll_pending [of ?c w n] by simp
      from c None False have "fst (?c w) \<noteq> (True, None)" by simp
      from tick_other_trace [OF this] c obtain es1 where
        es1: "trace w' = trace w @ es1" "createdMachineSet \<notin> set es1"
        by auto
      from Suc.IH [of w'] obtain es2 where
        es2: "trace (snd (Poll n ?c w')) = trace w' @ es2"
        "if fst (Poll n ?c w') = None
         then \<exists>pre. es2 = pre @ [createdMachineSet] \<and> createdMachineSet \<notin> set pre
         else createdMachineSet \<notin> set es2"
        by blast
      have t: "trace (snd (Poll (Suc n) ?c w)) = trace w @ (es1 @ es2)"
        using p es1(1) es2(1) by simp
      show ?thesis
      proof (cases "fst (Poll n ?c w') = None")
        case True
        with es2(2) obtain pre where
          pre: "es2 = pre @ [createdMachineSet]" "createdMachineSet \<notin> set pre"
          by auto
        have "es1 @ es2 = (es1 @ pre) @ [createdMachineSet] \<and>
              createdMachineSet \<notin> set (es1 @ pre)"
          using pre es1(2) by simp
        with t p True show ?thesis by (metis (full_types))
      next
        case False
        with es2(2) have "createdMachineSet \<notin> set (es1 @ es2)"
          using es1(2) by simp
        with t p False show ?thesis by (metis (full_types))
      qed
    qed
  qed
qed

lemma bootstrap_returns_created:
  assumes "fst (bootstrap optr env ticks w) = Return ()"
  shows "last (trace (snd (bootstrap optr env ticks w))) = createdMachineSet"
proof -
  let ?p = "Poll ticks (rolloutCondition optr env) w"
  have n: "fst ?p = None"
  proof (cases "fst ?p")
    case None
    then show ?thesis .
  next
    case (Some e)
    from bootstrap_error [OF this] assms show ?thesis by simp
  qed
  from Poll_trace [of ticks optr env w] n obtain pre where
    "trace (snd ?p) = trace w @ pre @ [createdMachineSet]"
    by auto
  then show ?thesis using bootstrap_done [OF n] by simp
qed

lemma bootstrap_timeout:
  assumes "allPending ticks (rolloutCondition optr env) w"
  shows "fst (bootstrap optr env ticks w) = Exit"
    and "last (trace (snd (bootstrap optr env ticks w))) =
           Log Fatal ''Error out while trying to deploy machines: %v''"
  using bootstrap_error [OF Poll_allPending [OF assms]] by simp_all

lemma bootstrap_hard_error:
  assumes "fst (rolloutCondition optr env w) = (ok, Some e)"
  shows "fst (bootstrap optr env (Suc n) w) = Exit"
proof -
  have "fst (Poll (Suc n) (rolloutCondition optr env) w) = Some e"
    using Poll_error [of "rolloutCondition optr env" w ok e n] assms by simp
  from bootstrap_error [OF this] show ?thesis by simp
qed

text \<open>
  C5. Within a poll tick, a failure of configuration resolution or of the image details
  makes the condition function return at once with an error, before any creation is
  attempted, and that error ends the poll and the process; a failure of the cluster
  creation or of the machine-set creation makes it return "not done" with no error.
  When every tick that fits in the timeout answers "not done", the poll times out and
  the process halts fatally; the bootstrap returns normally only after a tick in which
  the machine sets were created.
\<close>

theorem bootstrap_failure_classes:
  "(getOperatorConfig optr env (ext w) = Inl err \<longrightarrow>
      fst (rolloutCondition optr env w) =
        (False, Some (''error decoding operator config: '' @ err)) \<and>
      stagesOf (added w (snd (rolloutCondition optr env w))) = [ResolveConfig] \<and>
      fst (bootstrap optr env (Suc n) w) = Exit) \<and>
   (getOperatorConfig optr env (ext w) = Inr cfg0 \<longrightarrow>
     (updateImageDetails optr env cfg0 (ext w) = Inl err \<longrightarrow>
        fst (rolloutCondition optr env w) =
          (False, Some (''error getting image details: '' @ err)) \<and>
        stagesOf (added w (snd (rolloutCondition optr env w))) =
          [ResolveConfig, ImageDetails] \<and>
        fst (bootstrap optr env (Suc n) w) = Exit) \<and>
     (updateImageDetails optr env cfg0 (ext w) = Inr cfg \<longrightarrow>
       (syncCluster env cfg (ext w) = (Some err, x3) \<longrightarrow>
          fst (rolloutCondition optr env w) = (False, None)) \<and>
       (syncCluster env cfg (ext w) = (None, x3) \<and>
        syncMachineSets env cfg x3 = (Some err, x4) \<longrightarrow>
          fst (rolloutCondition optr env w) = (False, None)))) \<and>
   (allPending ticks (rolloutCondition optr env) w \<longrightarrow>
      fst (bootstrap optr env ticks w) = Exit \<and>
      last (trace (snd (bootstrap optr env ticks w))) =
        Log Fatal ''Error out while trying to deploy machines: %v'') \<and>
   (fst (bootstrap optr env ticks w) = Return () \<longrightarrow>
      last (trace (snd (bootstrap optr env ticks w))) = createdMachineSet)"
proof -
  have c1: "fst (rolloutCondition optr env w) =
        (False, Some (''error decoding operator config: '' @ err)) \<and>
      stagesOf (added w (snd (rolloutCondition optr env w))) = [ResolveConfig] \<and>
      fst (bootstrap optr env (Suc n) w) = Exit"
    if h: "getOperatorConfig optr env (ext w) = Inl err"
  proof -
    have r: "fst (rolloutCondition optr env w) =
        (False, Some (''error decoding operator config: '' @ err))"
      by (simp add: tick_config_fails [OF h])
    have "stagesOf (added w (snd (rolloutCondition optr env w))) = [ResolveConfig]"
      by (simp add: tick_config_fails [OF h] added_def)
    with r bootstrap_hard_error [OF r] show ?thesis by simp
  qed
  have c2: "fst (rolloutCondition optr env w) =
          (False, Some (''error getting image details: '' @ err)) \<and>
        stagesOf (added w (snd (rolloutCondition optr env w))) =
          [ResolveConfig, ImageDetails] \<and>
        fst (bootstrap optr env (Suc n) w) = Exit"
    if h: "getOperatorConfig optr env (ext w) = Inr cfg0"
      "updateImageDetails optr env cfg0 (ext w) = Inl err"
  proof -
    have r: "fst (rolloutCondition optr env w) =
          (False, Some (''error getting image details: '' @ err))"
      by (simp add: tick_images_fail [OF h])
    have "stagesOf (added w (snd (rolloutCondition optr env w))) = [ResolveConfig, ImageDetails]"
      by (simp add: tick_images_fail [OF h] added_def)
    with r bootstrap_hard_error [OF r] show ?thesis by simp
  qed
  have c3: "fst (rolloutCondition optr env w) = (False, None)"
    if "getOperatorConfig optr env (ext w) = Inr cfg0"
      "updateImageDetails optr env cfg0 (ext w) = Inr cfg"
      "syncCluster env cfg (ext w) = (Some err, x3)"
    using that by (rule tick_cluster_fails(1))
  have c4: "fst (rolloutCondition optr env w) = (False, None)"
    if "getOperatorConfig optr env (ext w) = Inr cfg0"
      "updateImageDetails optr env cfg0 (ext w) = Inr cfg"
      "syncCluster env cfg (ext w) = (None, x3) \<and> syncMachineSets env cfg x3 = (Some err, x4)"
    using that tick_machineSets_fail(1) [of optr env w cfg0 cfg x3 err x4] by simp
  note c5 = bootstrap_timeout [of ticks optr env w]
  note c6 = bootstrap_returns_created [of optr env ticks w]
  show ?thesis
    using c1 c2 c3 c4 c5 c6 by blast
qed

lemma tick_clusterNever:
  "fst (rolloutCondition exampleOperator clusterNeverEnv w) = (False, None)"
  by (rule tick_cluster_fails(1)
      [where ?cfg0.0 = resolvedConfig and cfg = "resolvedConfig\<lparr>Images := Some []\<rparr>"
         and err = "''no cluster''" and ?x3.0 = "(Suc (fst (ext w)), snd (ext w))"])
    (simp_all add: clusterNeverEnv_def)

lemma allPending_clusterNever:
  "allPending n (rolloutCondition exampleOperator clusterNeverEnv) w"
  by (induction n arbitrary: w) (simp_all add: tick_clusterNever)

theorem bootstrap_failure_classes_witness:
  "getOperatorConfig exampleOperator unreachableEnv (ext (freshWorld (0, 0))) =
     Inl ''could not find cluster-config-v1 namespace: connection refused'' \<and>
   fst (rolloutCondition exampleOperator unreachableEnv (freshWorld (0, 0))) =
     (False, Some ''error decoding operator config: could not find cluster-config-v1 namespace: connection refused'') \<and>
   fst (bootstrap exampleOperator unreachableEnv (Suc 2) (freshWorld (0, 0))) = Exit \<and>
   allPending 2 (rolloutCondition exampleOperator clusterNeverEnv) (freshWorld (0, 0)) \<and>
   fst (bootstrap exampleOperator clusterNeverEnv 2 (freshWorld (0, 0))) = Exit \<and>
   last (trace (snd (bootstrap exampleOperator clusterNeverEnv 2 (freshWorld (0, 0))))) =
     Log Fatal ''Error out while trying to deploy machines: %v''"
proof -
  have a: "getOperatorConfig exampleOperator unreachableEnv (ext (freshWorld (0, 0))) =
     Inl ''could not find cluster-config-v1 namespace: connection refused''"
    by (simp add: unreachableEnv_def)
  have b: "allPending 2 (rolloutCondition exampleOperator clusterNeverEnv) (freshWorld (0, 0))"
    by (rule allPending_clusterNever)
  note t1 = bootstrap_failure_classes
    [where optr = exampleOperator and env = unreachableEnv and w = "freshWorld (0, 0)"
       and err = "''could not find cluster-config-v1 namespace: connection refused''"
       and n = 2 and ?cfg0.0 = resolvedConfig and cfg = resolvedConfig
       and ?x3.0 = "(0, 0)" and ?x4.0 = "(0, 0)" and ticks = 2]
  note t2 = bootstrap_failure_classes
    [where optr = exampleOperator and env = clusterNeverEnv and w = "freshWorld (0, 0)"
       and err = "''no cluster''"
       and n = 2 and ?cfg0.0 = resolvedConfig and cfg = resolvedConfig
       and ?x3.0 = "(0, 0)" and ?x4.0 = "(0, 0)" and ticks = 2]
  from t1 a have "fst (rolloutCondition exampleOperator unreachableEnv (freshWorld (0, 0))) =
     (False, Some (''error decoding operator config: '' @
        ''could not find cluster-config-v1 namespace: connection refused'')) \<and>
   fst (bootstrap exampleOperator unreachableEnv (Suc 2) (freshWorld (0, 0))) = Exit"
    by blast
  moreover from t2 b have "fst (bootstrap exampleOperator clusterNeverEnv 2 (freshWorld (0, 0))) = Exit \<and>
   last (trace (snd (bootstrap exampleOperator clusterNeverEnv 2 (freshWorld (0, 0))))) =
     Log Fatal ''Error out while trying to deploy machines: %v''"
    by blast
  ultimately show ?thesis using a b by simp
qed

lemma tick_frame:
  "rolloutCondition optr env w =
     (fst (rolloutCondition optr env (freshWorld (ext w))),
      w\<lparr>ext := ext (snd (rolloutCondition optr env (freshWorld (ext w)))),
        trace := trace w @ trace (snd (rolloutCondition optr env (freshWorld (ext w))))\<rparr>)"
  by (simp add: rolloutCondition_def Let_def runStage_def emit_def freshWorld_def
      split: prod.splits option.splits sum.splits)

lemma tick_memoryless:
  assumes "ext w = ext v"
  shows "fst (rolloutCondition optr env w) = fst (rolloutCondition optr env v)"
    and "added w (snd (rolloutCondition optr env w)) = added v (snd (rolloutCondition optr env v))"
    and "ext (snd (rolloutCondition optr env w)) = ext (snd (rolloutCondition optr env v))"
proof -
  note fw = tick_frame [of optr env w] and fv = tick_frame [of optr env v]
  show "fst (rolloutCondition optr env w) = fst (rolloutCondition optr env v)"
    using assms by (subst fw, subst fv) simp
  show "added w (snd (rolloutCondition optr env w)) = added v (snd (rolloutCondition optr env v))"
    using assms by (subst fw, subst fv) (simp add: added_def)
  show "ext (snd (rolloutCondition optr env w)) = ext (snd (rolloutCondition optr env v))"
    using assms by (subst fw, subst fv) simp
qed

lemma tick_attempts:
  assumes "getOperatorConfig optr env (ext w) = Inr cfg0"
    and "updateImageDetails optr env cfg0 (ext w) = Inr cfg"
  shows "Stage CreateCluster \<in> set (added w (snd (rolloutCondition optr env w)))"
    and "Stage CreateMachineSets \<in> set (added w (snd (rolloutCondition optr env w))) \<longleftrightarrow>
         fst (syncCluster env cfg (ext w)) = None"
proof -
  obtain r3 x3 where c: "syncCluster env cfg (ext w) = (r3, x3)" by (metis prod.exhaust)
  obtain r4 x4 where m: "syncMachineSets env cfg x3 = (r4, x4)" by (metis prod.exhaust)
  have "Stage CreateCluster \<in> set (added w (snd (rolloutCondition optr env w))) \<and>
        (Stage CreateMachineSets \<in> set (added w (snd (rolloutCondition optr env w))) \<longleftrightarrow>
         fst (syncCluster env cfg (ext w)) = None)"
  proof (cases r3)
    case (Some err)
    with c have c': "syncCluster env cfg (ext w) = (Some err, x3)" by simp
    show ?thesis
      using tick_cluster_fails(2) [OF assms c'] c' by (simp add: added_def)
  next
    case None
    with c have c': "syncCluster env cfg (ext w) = (None, x3)" by simp
    show ?thesis
    proof (cases r4)
      case (Some err)
      with m have m': "syncMachineSets env cfg x3 = (Some err, x4)" by simp
      show ?thesis
        using tick_machineSets_fail(2) [OF assms c' m'] c' by (simp add: added_def)
    next
      case None
      with m have m': "syncMachineSets env cfg x3 = (None, x4)" by simp
      show ?thesis
        using tick_done(2) [OF assms c' m'] c' by (simp add: added_def)
    qed
  qed
  then show "Stage CreateCluster \<in> set (added w (snd (rolloutCondition optr env w)))"
    and "Stage CreateMachineSets \<in> set (added w (snd (rolloutCondition optr env w))) \<longleftrightarrow>
         fst (syncCluster env cfg (ext w)) = None"
    by simp_all
qed

lemma Poll_created_once:
  "count_list (added w (snd (Poll n (rolloutCondition optr env) w))) createdMachineSet \<le> 1"
  "createdMachineSet \<in> set (added w (snd (Poll n (rolloutCondition optr env) w))) \<Longrightarrow>
   last (added w (snd (Poll n (rolloutCondition optr env) w))) = createdMachineSet"
proof -
  obtain es where es: "trace (snd (Poll n (rolloutCondition optr env) w)) = trace w @ es"
    "if fst (Poll n (rolloutCondition optr env) w) = None
     then \<exists>pre. es = pre @ [createdMachineSet] \<and> createdMachineSet \<notin> set pre
     else createdMachineSet \<notin> set es"
    using Poll_trace by blast
  have ad: "added w (snd (Poll n (rolloutCondition optr env) w)) = es"
    using es(1) by (rule added_appended)
  show "count_list (added w (snd (Poll n (rolloutCondition optr env) w))) createdMachineSet \<le> 1"
    unfolding ad using es(2) by (auto simp: count_list_absent split: if_splits)
  show "last (added w (snd (Poll n (rolloutCondition optr env) w))) = createdMachineSet"
    if "createdMachineSet \<in> set (added w (snd (Poll n (rolloutCondition optr env) w)))"
    using that unfolding ad using es(2) by (auto split: if_splits)
qed

text \<open>
  C2 (amended). The bootstrap poll keeps no milestone across ticks: what a tick answers,
  does and leaves behind depends only on the external state it starts from. Every tick
  whose configuration resolves attempts the creation of the cluster object, whether or
  not an earlier tick has created it, and attempts the creation of the machine sets
  exactly when the cluster creation has succeeded in that same tick. The creation of the
  machine sets succeeds at most once in a run of the poll, and when it does it is the
  last thing the poll does: it is not retried on later ticks.
\<close>

theorem bootstrap_keeps_no_milestones:
  "(ext w = ext v \<longrightarrow>
      fst (rolloutCondition optr env w) = fst (rolloutCondition optr env v) \<and>
      added w (snd (rolloutCondition optr env w)) = added v (snd (rolloutCondition optr env v)) \<and>
      ext (snd (rolloutCondition optr env w)) = ext (snd (rolloutCondition optr env v))) \<and>
   (getOperatorConfig optr env (ext w) = Inr cfg0 \<and>
    updateImageDetails optr env cfg0 (ext w) = Inr cfg \<longrightarrow>
      Stage CreateCluster \<in> set (added w (snd (rolloutCondition optr env w))) \<and>
      (Stage CreateMachineSets \<in> set (added w (snd (rolloutCondition optr env w))) \<longleftrightarrow>
       fst (syncCluster env cfg (ext w)) = None)) \<and>
   count_list (added w (snd (Poll n (rolloutCondition optr env) w))) createdMachineSet \<le> 1 \<and>
   (createdMachineSet \<in> set (added w (snd (Poll n (rolloutCondition optr env) w))) \<longrightarrow>
      last (added w (snd (Poll n (rolloutCondition optr env) w))) = createdMachineSet)"
  using tick_memoryless [of w v optr env] tick_attempts [of optr env w cfg0 cfg]
    Poll_created_once [of w n optr env]
  by blast

theorem bootstrap_milestones_counterexample:
  "bootstrap exampleOperator machineSetLateEnv 2 (freshWorld (0, 0)) =
     (Return (),
      \<lparr>ext = (2, 2), failures = (\<lambda>k. 0),
        trace =
          [Stage ResolveConfig, Stage ImageDetails, Log Info ''images %+v'',
           Log Info ''Trying to deploy Cluster object'', Stage CreateCluster,
           Log Info ''Created Cluster object'', Log Info ''Trying to deploy MachineSet object'',
           Stage CreateMachineSets, Log Info ''Cannot create MachineSet, retrying: %v'',
           Stage ResolveConfig, Stage ImageDetails, Log Info ''images %+v'',
           Log Info ''Trying to deploy Cluster object'', Stage CreateCluster,
           Log Info ''Created Cluster object'', Log Info ''Trying to deploy MachineSet object'',
           Stage CreateMachineSets, Log Info ''Created MachineSet object Successfully'']\<rparr>)"
  by (simp add: bootstrap_def numeral_2_eq_2 rolloutCondition_def Let_def runStage_def
      machineSetLateEnv_def emit_def freshWorld_def)

lemma Poll_good:
  "Poll 1 (rolloutCondition exampleOperator goodEnv) (freshWorld (0, 0)) =
     (None,
      \<lparr>ext = (1, 1), failures = (\<lambda>k. 0),
        trace =
          [Stage ResolveConfig, Stage ImageDetails, Log Info ''images %+v'',
           Log Info ''Trying to deploy Cluster object'', Stage CreateCluster,
           Log Info ''Created Cluster object'', Log Info ''Trying to deploy MachineSet object'',
           Stage CreateMachineSets, createdMachineSet]\<rparr>)"
  by (simp add: rolloutCondition_def Let_def runStage_def goodEnv_def emit_def freshWorld_def
      createdMachineSet_def)

theorem bootstrap_keeps_no_milestones_witness:
  "ext (freshWorld (0::nat, 0::nat)) = ext (emit QGet (freshWorld (0::nat, 0::nat))) \<and>
   fst (rolloutCondition exampleOperator goodEnv (freshWorld (0, 0))) =
     fst (rolloutCondition exampleOperator goodEnv (emit QGet (freshWorld (0, 0)))) \<and>
   getOperatorConfig exampleOperator goodEnv (ext (freshWorld (0, 0))) = Inr resolvedConfig \<and>
   updateImageDetails exampleOperator goodEnv resolvedConfig (ext (freshWorld (0, 0))) =
     Inr (resolvedConfig\<lparr>Images := Some []\<rparr>) \<and>
   Stage CreateCluster \<in>
     set (added (freshWorld (0, 0)) (snd (rolloutCondition exampleOperator goodEnv (freshWorld (0, 0))))) \<and>
   createdMachineSet \<in>
     set (added (freshWorld (0, 0))
            (snd (Poll 1 (rolloutCondition exampleOperator goodEnv) (freshWorld (0, 0))))) \<and>
   last (added (freshWorld (0, 0))
            (snd (Poll 1 (rolloutCondition exampleOperator goodEnv) (freshWorld (0, 0))))) =
     createdMachineSet"
proof -
  have a: "ext (freshWorld (0, 0)) = ext (emit QGet (freshWorld (0::nat, 0::nat)))"
    by simp
  have b: "getOperatorConfig exampleOperator goodEnv (ext (freshWorld (0, 0))) = Inr resolvedConfig \<and>
      updateImageDetails exampleOperator goodEnv resolvedConfig (ext (freshWorld (0, 0))) =
        Inr (resolvedConfig\<lparr>Images := Some []\<rparr>)"
    by (simp add: goodEnv_def)
  have c: "createdMachineSet \<in>
     set (added (freshWorld (0, 0))
            (snd (Poll 1 (rolloutCondition exampleOperator goodEnv) (freshWorld (0, 0)))))"
    by (simp only: Poll_good) (simp add: added_def)
  note t = bootstrap_keeps_no_milestones
    [where w = "freshWorld (0, 0)" and v = "emit QGet (freshWorld (0, 0))"
       and optr = exampleOperator and env = goodEnv and ?cfg0.0 = resolvedConfig
       and cfg = "resolvedConfig\<lparr>Images := Some []\<rparr>" and n = 1]
  from t a b c show ?thesis by blast
qed

text \<open>
  The scenario of the spec: the cluster creation fails on the first \<open>M\<close> ticks and the
  machine-set creation never fails. With more than \<open>M\<close> ticks before the timeout the
  bootstrap returns normally, after \<open>M + 1\<close> attempts at the cluster and one attempt at
  the machine sets.
\<close>

lemma tick_clusterLate_pending:
  assumes "ext w = (c, m)" and "c < M"
  shows "fst (rolloutCondition exampleOperator (clusterLateEnv M) w) = (False, None)"
    and "ext (snd (rolloutCondition exampleOperator (clusterLateEnv M) w)) = (Suc c, m)"
proof -
  note t = tick_cluster_fails
      [where optr = exampleOperator and env = "clusterLateEnv M" and w = w
         and ?cfg0.0 = resolvedConfig and cfg = "resolvedConfig\<lparr>Images := Some []\<rparr>"
         and err = "''no cluster yet''" and ?x3.0 = "(Suc c, m)"]
  have h: "getOperatorConfig exampleOperator (clusterLateEnv M) (ext w) = Inr resolvedConfig"
    "updateImageDetails exampleOperator (clusterLateEnv M) resolvedConfig (ext w) =
       Inr (resolvedConfig\<lparr>Images := Some []\<rparr>)"
    "syncCluster (clusterLateEnv M) (resolvedConfig\<lparr>Images := Some []\<rparr>) (ext w) =
       (Some ''no cluster yet'', (Suc c, m))"
    using assms by (simp_all add: clusterLateEnv_def)
  show "fst (rolloutCondition exampleOperator (clusterLateEnv M) w) = (False, None)"
    by (rule t(1) [OF h])
  show "ext (snd (rolloutCondition exampleOperator (clusterLateEnv M) w)) = (Suc c, m)"
    by (rule t(3) [OF h])
qed

lemma tick_clusterLate_created:
  assumes "ext w = (M, m)"
  shows "fst (rolloutCondition exampleOperator (clusterLateEnv M) w) = (True, None)"
    and "ext (snd (rolloutCondition exampleOperator (clusterLateEnv M) w)) = (Suc M, Suc m)"
proof -
  note t = tick_done
      [where optr = exampleOperator and env = "clusterLateEnv M" and w = w
         and ?cfg0.0 = resolvedConfig and cfg = "resolvedConfig\<lparr>Images := Some []\<rparr>"
         and ?x3.0 = "(Suc M, m)" and ?x4.0 = "(Suc M, Suc m)"]
  have h: "getOperatorConfig exampleOperator (clusterLateEnv M) (ext w) = Inr resolvedConfig"
    "updateImageDetails exampleOperator (clusterLateEnv M) resolvedConfig (ext w) =
       Inr (resolvedConfig\<lparr>Images := Some []\<rparr>)"
    "syncCluster (clusterLateEnv M) (resolvedConfig\<lparr>Images := Some []\<rparr>) (ext w) =
       (None, (Suc M, m))"
    "syncMachineSets (clusterLateEnv M) (resolvedConfig\<lparr>Images := Some []\<rparr>) (Suc M, m) =
       (None, (Suc M, Suc m))"
    using assms by (simp_all add: clusterLateEnv_def)
  show "fst (rolloutCondition exampleOperator (clusterLateEnv M) w) = (True, None)"
    by (rule t(1) [OF h])
  show "ext (snd (rolloutCondition exampleOperator (clusterLateEnv M) w)) = (Suc M, Suc m)"
    by (rule t(3) [OF h])
qed

lemma Poll_clusterLate:
  "ext w = (c, m) \<Longrightarrow> c \<le> M \<Longrightarrow> M - c < n \<Longrightarrow>
   fst (Poll n (rolloutCondition exampleOperator (clusterLateEnv M)) w) = None \<and>
   ext (snd (Poll n (rolloutCondition exampleOperator (clusterLateEnv M)) w)) = (Suc M, Suc m)"
proof (induction n arbitrary: w c)
  case 0
  then show ?case by simp
next
  case (Suc n)
  let ?c = "rolloutCondition exampleOperator (clusterLateEnv M)"
  show ?case
  proof (cases "c < M")
    case True
    note t = tick_clusterLate_pending [OF Suc.prems(1) True]
    have p: "Poll (Suc n) ?c w = Poll n ?c (snd (?c w))"
      using t(1) by (rule Poll_pending)
    have "M - Suc c < n" using Suc.prems(3) True by simp
    from Suc.IH [OF t(2) _ this] True show ?thesis
      unfolding p by simp
  next
    case False
    with Suc.prems(2) have "c = M" by simp
    with Suc.prems(1) have e: "ext w = (M, m)" by simp
    note t = tick_clusterLate_created [OF e]
    have "Poll (Suc n) ?c w = (None, snd (?c w))"
      using t(1) by (rule Poll_done)
    with t(2) show ?thesis by simp
  qed
qed

lemma bootstrap_cluster_late:
  "bootstrap exampleOperator (clusterLateEnv M) (Suc M + k) (freshWorld (0, 0)) =
     (Return (),
      snd (Poll (Suc M + k) (rolloutCondition exampleOperator (clusterLateEnv M))
             (freshWorld (0, 0)))) \<and>
   ext (snd (bootstrap exampleOperator (clusterLateEnv M) (Suc M + k) (freshWorld (0, 0)))) =
     (Suc M, 1)"
proof -
  have "fst (Poll (Suc M + k) (rolloutCondition exampleOperator (clusterLateEnv M))
             (freshWorld (0, 0))) = None \<and>
     ext (snd (Poll (Suc M + k) (rolloutCondition exampleOperator (clusterLateEnv M))
             (freshWorld (0, 0)))) = (Suc M, Suc 0)"
    by (rule Poll_clusterLate [where c = 0 and m = 0, simplified]) simp_all
  then show ?thesis
    using bootstrap_done [of "Suc M + k" exampleOperator "clusterLateEnv M" "freshWorld (0, 0)"]
    by simp
qed

subsection \<open>Run\<close>

lemma trace_emit_funpow: "trace ((emit e ^^ n) w) = trace w @ replicate n e"
  by (induction n) (simp_all add: replicate_append_same)

lemma trace_queueShutDown [simp]: "trace (queueShutDown w) = trace w @ [QShutDown]"
  by (simp add: queueShutDown_def)

lemma Run_not_synced:
  assumes "\<not> syncedBeforeStop (deployListerSynced optr)"
  shows "added w (Run optr syncedBeforeStop workers w) =
           [Log Info ''Starting MachineAPIOperator'', WaitForCacheSync [deployListerSynced optr],
            Log Error ''failed to sync caches'', Log Info ''Shutting down MachineAPIOperator'',
            QShutDown]"
  using assms by (simp add: Run_def Let_def cacheWaitForCacheSync_def added_def)

lemma Run_synced:
  assumes "syncedBeforeStop (deployListerSynced optr)"
  shows "added w (Run optr syncedBeforeStop workers w) =
           [Log Info ''Starting MachineAPIOperator'', WaitForCacheSync [deployListerSynced optr],
            Log Info ''Synched up caches'', Go BootstrapLoop] @
           replicate (nat workers) (Go Worker) @
           [AwaitStop, Log Info ''Shutting down MachineAPIOperator'', QShutDown]"
  using assms
  by (simp add: Run_def Let_def cacheWaitForCacheSync_def added_def trace_emit_funpow)

text \<open>
  C7 (amended). \<open>Run\<close> waits for one cache, the one behind \<open>deployListerSynced\<close>
  (the deployment informer), and starts the bootstrap loop and the workers only after that
  cache has completed its initial sync; the caches of the other watched collections are
  not waited for. When the wait fails because the stop signal came first, \<open>Run\<close> logs
  the failure, shuts the queue down and returns without starting the bootstrap loop or
  any worker.
\<close>

theorem Run_waits_for_deployment_cache:
  fixes w :: "'x world"
  shows
  "(\<not> syncedBeforeStop (deployListerSynced optr) \<longrightarrow>
      added w (Run optr syncedBeforeStop workers w) =
        [Log Info ''Starting MachineAPIOperator'', WaitForCacheSync [deployListerSynced optr],
         Log Error ''failed to sync caches'', Log Info ''Shutting down MachineAPIOperator'',
         QShutDown] \<and>
      Go t \<notin> set (added w (Run optr syncedBeforeStop workers w))) \<and>
   (syncedBeforeStop (deployListerSynced optr) \<longrightarrow>
      added w (Run optr syncedBeforeStop workers w) =
        [Log Info ''Starting MachineAPIOperator'', WaitForCacheSync [deployListerSynced optr],
         Log Info ''Synched up caches'', Go BootstrapLoop] @
        replicate (nat workers) (Go Worker) @
        [AwaitStop, Log Info ''Shutting down MachineAPIOperator'', QShutDown]) \<and>
   (Go t \<in> set (added w (Run optr syncedBeforeStop workers w)) \<longrightarrow>
      syncedBeforeStop (deployListerSynced optr)) \<and>
   deployListerSynced (fst (New ns nm images cfg ::
      Operator \<times> (informer \<times> (unit, 'x) ResourceEventHandlerFuncs) list)) = DeployInformer"
proof -
  have a: "added w (Run optr syncedBeforeStop workers w) =
        [Log Info ''Starting MachineAPIOperator'', WaitForCacheSync [deployListerSynced optr],
         Log Error ''failed to sync caches'', Log Info ''Shutting down MachineAPIOperator'',
         QShutDown] \<and>
      Go t \<notin> set (added w (Run optr syncedBeforeStop workers w))"
    if "\<not> syncedBeforeStop (deployListerSynced optr)"
    using Run_not_synced [of syncedBeforeStop optr w workers] that by simp
  have b: "Go t \<in> set (added w (Run optr syncedBeforeStop workers w)) \<longrightarrow>
      syncedBeforeStop (deployListerSynced optr)"
    using a by blast
  have c: "deployListerSynced (fst (New ns nm images cfg ::
      Operator \<times> (informer \<times> (unit, 'x) ResourceEventHandlerFuncs) list)) = DeployInformer"
    by (simp add: New_def Let_def)
  show ?thesis
    using a b c Run_synced [of syncedBeforeStop optr w workers] by blast
qed

lemma deployListerSynced_exampleOperator [simp]:
  "deployListerSynced exampleOperator = DeployInformer"
  by (simp add: exampleOperator_def New_def Let_def)

theorem Run_waits_for_all_caches_counterexample:
  "CRDInformer \<in> set (map fst (snd (New ''openshift-machine-api'' ''machine-api-operator''
       ''/etc/images.json'' [] :: Operator \<times> (informer \<times> (unit, unit) ResourceEventHandlerFuncs) list))) \<and>
   \<not> onlyDeploymentsSynced CRDInformer \<and>
   trace (Run exampleOperator onlyDeploymentsSynced 1 (freshWorld ())) =
     [Log Info ''Starting MachineAPIOperator'', WaitForCacheSync [DeployInformer],
      Log Info ''Synched up caches'', Go BootstrapLoop, Go Worker, AwaitStop,
      Log Info ''Shutting down MachineAPIOperator'', QShutDown]"
  using Run_synced [of onlyDeploymentsSynced exampleOperator "freshWorld ()" 1]
  by (simp add: onlyDeploymentsSynced_def New_def Let_def added_def)

theorem Run_waits_for_deployment_cache_witness:
  "\<not> nothingSynced (deployListerSynced exampleOperator) \<and>
   trace (Run exampleOperator nothingSynced 2 (freshWorld ())) =
     [Log Info ''Starting MachineAPIOperator'', WaitForCacheSync [DeployInformer],
      Log Error ''failed to sync caches'', Log Info ''Shutting down MachineAPIOperator'',
      QShutDown] \<and>
   onlyDeploymentsSynced (deployListerSynced exampleOperator) \<and>
   trace (Run exampleOperator onlyDeploymentsSynced 2 (freshWorld ())) =
     [Log Info ''Starting MachineAPIOperator'', WaitForCacheSync [DeployInformer],
      Log Info ''Synched up caches'', Go BootstrapLoop, Go Worker, Go Worker, AwaitStop,
      Log Info ''Shutting down MachineAPIOperator'', QShutDown]"
  using Run_waits_for_deployment_cache
    [of nothingSynced exampleOperator "freshWorld ()" 2 Worker
        "''openshift-machine-api''" "''machine-api-operator''" "''/etc/images.json''" "[]"]
    Run_waits_for_deployment_cache
    [of onlyDeploymentsSynced exampleOperator "freshWorld ()" 2 Worker
        "''openshift-machine-api''" "''machine-api-operator''" "''/etc/images.json''" "[]"]
  by (simp add: nothingSynced_def onlyDeploymentsSynced_def added_def numeral_2_eq_2)

end
